theory Spec2Isabelle
  imports Complex_Main
begin

section \<open>Data model (models/entity.py)\<close>

text \<open>
  A Python \<open>float\<close> that is a number is modelled as a real number. Every arithmetic
  operation of the risk scorer is passed through a rounding function \<open>rnd\<close>: with
  \<open>exact\<close> (no rounding) the model computes in exact arithmetic, with \<open>f64\<close> it rounds each
  result to the nearest IEEE-754 binary64 value, as CPython does. The values that the risk
  scorer computes with are of the type \<open>pyfloat\<close>, a number or not-a-number; the fields of
  the records are numbers. The infinities and overflow are not modelled, and the anomaly rules
  are modelled in exact arithmetic. Python \<open>str\<close> values are modelled as \<open>string\<close>,
  restricted to ASCII text.

  Names follow the source, without the leading underscore of private methods. The field
  \<open>type\<close> is \<open>etype\<close> in \<open>Entity\<close> and \<open>atype\<close> in \<open>Anomaly\<close>, and a parameter
  \<open>amount\<close> or \<open>currency\<close> is written \<open>amt\<close> or \<open>cur\<close> where the record field of that
  name is in scope.
\<close>

datatype EntityType =
  CORPORATION | NON_PROFIT | SHELL_COMPANY | GOVERNMENT_AGENCY | FINANCIAL_INTERMEDIARY | UNKNOWN

record Entity =
  name :: string
  etype :: EntityType
  confidence_score :: real
  evidence_sources :: "string list"
  registration_number :: "string option"
  jurisdiction :: "string option"
  incorporation_date :: "string option"
  directors :: "string list option"
  shareholders :: "string list option"
  sanctions_status :: "bool option"
  risk_factors :: "(string \<times> real) list option"
  reputation_score :: "real option"

text \<open>
  \<open>Entity(name=..., type=..., confidence_score=..., evidence_sources=...)\<close>: the four
  required fields are given, every other field takes the default of the class body.
\<close>

definition Entity_init :: "string \<Rightarrow> EntityType \<Rightarrow> real \<Rightarrow> string list \<Rightarrow> Entity" where
  "Entity_init n t c ev =
     \<lparr> name = n, etype = t, confidence_score = c, evidence_sources = ev,
       registration_number = None, jurisdiction = None, incorporation_date = None,
       directors = None, shareholders = None, sanctions_status = Some False,
       risk_factors = None, reputation_score = Some 0 \<rparr>"

record Anomaly =
  atype :: string
  severity :: real
  description :: string
  evidence :: "string list"

section \<open>Strings\<close>

definition ascii_upper :: string where
  "ascii_upper = ''ABCDEFGHIJKLMNOPQRSTUVWXYZ''"

definition ascii_lower :: string where
  "ascii_lower = ''abcdefghijklmnopqrstuvwxyz''"

text \<open>\<open>str.lower()\<close> on ASCII text: the 26 capital letters are mapped, all else is kept.\<close>

definition lower_char :: "char \<Rightarrow> char" where
  "lower_char c = (case map_of (zip ascii_upper ascii_lower) c of Some d \<Rightarrow> d | None \<Rightarrow> c)"

definition lower :: "string \<Rightarrow> string" where
  "lower s = map lower_char s"

text \<open>\<open>sep.join(xs)\<close>.\<close>

fun join :: "string \<Rightarrow> string list \<Rightarrow> string" where
  "join sep [] = []"
| "join sep [x] = x"
| "join sep (x # y # ys) = x @ sep @ join sep (y # ys)"

section \<open>Floating-point rounding\<close>

definition exact :: "real \<Rightarrow> real" where
  "exact x = x"

text \<open>Round to the nearest integer, ties to the even one.\<close>

definition round_half_even :: "real \<Rightarrow> int" where
  "round_half_even x =
     (let f = \<lfloor>x\<rfloor>; d = x - of_int f
      in if d < 1/2 then f else if 1/2 < d then f + 1 else if even f then f else f + 1)"

text \<open>
  \<open>f64_pos k x\<close> rounds a positive \<open>x\<close> to 53 significant bits: \<open>x\<close> is scaled by powers
  of two into the interval from \<open>2^52\<close> to \<open>2^53\<close>, rounded to an integer there and
  scaled back. The fuel \<open>k\<close> bounds the number of scaling steps. With the fuel 1074 of
  \<open>f64\<close> the upward scaling stops at the spacing \<open>2^-1074\<close> of the binary64 values below
  the smallest normal number, and every finite binary64 value is reached; the overflow of
  values beyond the binary64 range is not modelled.
\<close>

fun f64_pos :: "nat \<Rightarrow> real \<Rightarrow> real" where
  "f64_pos 0 x = of_int (round_half_even x)"
| "f64_pos (Suc k) x =
     (if 2 ^ 53 \<le> x then 2 * f64_pos k (x / 2)
      else if x < 2 ^ 52 then f64_pos k (2 * x) / 2
      else of_int (round_half_even x))"

definition f64 :: "real \<Rightarrow> real" where
  "f64 x = (if x = 0 then 0 else if 0 < x then f64_pos 1074 x else - f64_pos 1074 (- x))"

section \<open>Floats with not-a-number\<close>

datatype pyfloat = Num real | NaN

text \<open>
  The arithmetic of floats: a result is rounded, and an operation on not-a-number gives
  not-a-number. The divisors of the risk scorer are a list length, 1000000 and 2, never
  zero, so \<open>ZeroDivisionError\<close> has no branch here.
\<close>

fun fl_add :: "(real \<Rightarrow> real) \<Rightarrow> pyfloat \<Rightarrow> pyfloat \<Rightarrow> pyfloat" where
  "fl_add rnd (Num x) (Num y) = Num (rnd (x + y))"
| "fl_add rnd (Num x) NaN = NaN"
| "fl_add rnd NaN b = NaN"

fun fl_sub :: "(real \<Rightarrow> real) \<Rightarrow> pyfloat \<Rightarrow> pyfloat \<Rightarrow> pyfloat" where
  "fl_sub rnd (Num x) (Num y) = Num (rnd (x - y))"
| "fl_sub rnd (Num x) NaN = NaN"
| "fl_sub rnd NaN b = NaN"

fun fl_mul :: "(real \<Rightarrow> real) \<Rightarrow> pyfloat \<Rightarrow> pyfloat \<Rightarrow> pyfloat" where
  "fl_mul rnd (Num x) (Num y) = Num (rnd (x * y))"
| "fl_mul rnd (Num x) NaN = NaN"
| "fl_mul rnd NaN b = NaN"

fun fl_div :: "(real \<Rightarrow> real) \<Rightarrow> pyfloat \<Rightarrow> pyfloat \<Rightarrow> pyfloat" where
  "fl_div rnd (Num x) (Num y) = Num (rnd (x / y))"
| "fl_div rnd (Num x) NaN = NaN"
| "fl_div rnd NaN b = NaN"

text \<open>\<open>a < b\<close> on floats: every comparison with not-a-number is false.\<close>

fun fl_less :: "pyfloat \<Rightarrow> pyfloat \<Rightarrow> bool" where
  "fl_less (Num x) (Num y) = (x < y)"
| "fl_less (Num x) NaN = False"
| "fl_less NaN b = False"

text \<open>\<open>fabs(a) >= fabs(b)\<close>, as the summation of CPython 3.12 tests it.\<close>

fun fl_abs_ge :: "pyfloat \<Rightarrow> pyfloat \<Rightarrow> bool" where
  "fl_abs_ge (Num x) (Num y) = (\<bar>y\<bar> \<le> \<bar>x\<bar>)"
| "fl_abs_ge (Num x) NaN = False"
| "fl_abs_ge NaN b = False"

text \<open>
  \<open>max(a, b)\<close> and \<open>min(a, b)\<close> of Python keep the first argument unless the second is
  greater (smaller), so they return a not-a-number first argument unchanged.
\<close>

definition py_max :: "pyfloat \<Rightarrow> pyfloat \<Rightarrow> pyfloat" where
  "py_max a b = (if fl_less a b then b else a)"

definition py_min :: "pyfloat \<Rightarrow> pyfloat \<Rightarrow> pyfloat" where
  "py_min a b = (if fl_less b a then b else a)"

section \<open>The builtin sum\<close>

text \<open>
  \<open>sum(xs)\<close> of floats depends on the interpreter. Up to CPython 3.11 it starts from 0 and
  adds from left to right, rounding each sum (\<open>py_sum_from\<close>). From CPython 3.12 on it adds
  the first float to the integer start 0 and then runs the compensated summation of
  Neumaier (\<open>neumaier\<close>): beside the running sum \<open>f\<close> it keeps a correction \<open>c\<close>, and at
  the end adds the correction if it is non-zero and finite. The source pins no interpreter,
  so the algorithm is a parameter of the model.
\<close>

datatype sum_algorithm = Naive_Sum | Neumaier_Sum

fun py_sum_from :: "(real \<Rightarrow> real) \<Rightarrow> pyfloat \<Rightarrow> pyfloat list \<Rightarrow> pyfloat" where
  "py_sum_from rnd acc [] = acc"
| "py_sum_from rnd acc (x # xs) = py_sum_from rnd (fl_add rnd acc x) xs"

fun neumaier :: "(real \<Rightarrow> real) \<Rightarrow> pyfloat \<Rightarrow> pyfloat \<Rightarrow> pyfloat list \<Rightarrow> pyfloat" where
  "neumaier rnd f c [] =
     (case c of
        Num v \<Rightarrow> if v \<noteq> 0 then fl_add rnd f c else f
      | NaN \<Rightarrow> f)"
| "neumaier rnd f c (x # xs) =
     (let t = fl_add rnd f x;
          c' = (if fl_abs_ge f x
                then fl_add rnd c (fl_add rnd (fl_sub rnd f t) x)
                else fl_add rnd c (fl_add rnd (fl_sub rnd x t) f))
      in neumaier rnd t c' xs)"

definition py_sum :: "(real \<Rightarrow> real) \<Rightarrow> sum_algorithm \<Rightarrow> pyfloat list \<Rightarrow> pyfloat" where
  "py_sum rnd alg xs =
     (case alg of
        Naive_Sum \<Rightarrow> py_sum_from rnd (Num 0) xs
      | Neumaier_Sum \<Rightarrow>
          (case xs of
             [] \<Rightarrow> Num 0
           | x # rest \<Rightarrow> neumaier rnd (fl_add rnd (Num 0) x) (Num 0) rest))"

section \<open>Risk scorer (services/risk_scorer.py)\<close>

record RiskScorer =
  weights :: "(string \<times> real) list"
  entity_type_risk :: "(EntityType \<times> real) list"
  high_risk_jurisdictions :: "(string \<times> real) list"

text \<open>\<open>RiskScorer.__init__\<close>; the literals are read by the rounding function.\<close>

definition RiskScorer_init :: "(real \<Rightarrow> real) \<Rightarrow> RiskScorer" where
  "RiskScorer_init rnd =
     \<lparr> weights =
         [(''entity_type'', rnd (3/10)), (''sanctions'', rnd (25/100)), (''reputation'', rnd (2/10)),
          (''anomalies'', rnd (15/100)), (''geographic'', rnd (1/10))],
       entity_type_risk =
         [(SHELL_COMPANY, rnd (8/10)), (FINANCIAL_INTERMEDIARY, rnd (6/10)),
          (CORPORATION, rnd (4/10)), (NON_PROFIT, rnd (3/10)),
          (GOVERNMENT_AGENCY, rnd (2/10)), (UNKNOWN, rnd (5/10))],
       high_risk_jurisdictions =
         [(''ru'', rnd (8/10)), (''cn'', rnd (7/10)), (''ir'', rnd (9/10)), (''kp'', rnd (9/10)),
          (''sy'', rnd (8/10)), (''ve'', rnd (7/10)), (''mm'', rnd (7/10)), (''zw'', rnd (6/10))] \<rparr>"

text \<open>\<open>d.get(k, default)\<close> on a dictionary kept as an association list.\<close>

definition dict_get :: "('k \<times> 'v) list \<Rightarrow> 'k \<Rightarrow> 'v \<Rightarrow> 'v" where
  "dict_get d k dflt = (case map_of d k of Some v \<Rightarrow> v | None \<Rightarrow> dflt)"

definition calculate_anomaly_risk ::
  "(real \<Rightarrow> real) \<Rightarrow> sum_algorithm \<Rightarrow> Anomaly list option \<Rightarrow> pyfloat option \<Rightarrow> pyfloat" where
  "calculate_anomaly_risk rnd alg anomalies transaction_amount =
     (case anomalies of
        None \<Rightarrow> Num 0
      | Some anoms \<Rightarrow>
          if anoms = [] then Num 0
          else
            let severity_scores = map (\<lambda>anomaly. Num (severity anomaly)) anoms;
                avg_severity = fl_div rnd (py_sum rnd alg severity_scores)
                                 (Num (of_nat (length severity_scores)))
            in (case transaction_amount of
                  None \<Rightarrow> avg_severity
                | Some amt \<Rightarrow>
                    (let amount_factor = py_min (fl_div rnd amt (Num 1000000)) (Num 1)
                     in fl_div rnd (fl_add rnd avg_severity amount_factor) (Num 2))))"

definition calculate_geographic_risk ::
  "(real \<Rightarrow> real) \<Rightarrow> RiskScorer \<Rightarrow> string option \<Rightarrow> real" where
  "calculate_geographic_risk rnd self j =
     (case j of
        None \<Rightarrow> rnd (5/10)
      | Some s \<Rightarrow> if s = [] then rnd (5/10)
                  else dict_get (high_risk_jurisdictions self) (lower s) (rnd (5/10)))"

text \<open>The dictionary \<open>risk_scores\<close> built by \<open>calculate_risk_score\<close>, keyed like \<open>weights\<close>.\<close>

definition risk_scores ::
  "(real \<Rightarrow> real) \<Rightarrow> sum_algorithm \<Rightarrow> RiskScorer \<Rightarrow> Entity \<Rightarrow> Anomaly list option
     \<Rightarrow> pyfloat option \<Rightarrow> (string \<times> pyfloat) list" where
  "risk_scores rnd alg self entity anomalies transaction_amount =
     [(''entity_type'', Num (dict_get (entity_type_risk self) (etype entity) (rnd (5/10)))),
      (''sanctions'', Num (if sanctions_status entity = Some True then rnd (8/10) else 0)),
      (''reputation'',
         case reputation_score entity of
           Some r \<Rightarrow> fl_sub rnd (Num 1) (Num r)
         | None \<Rightarrow> Num (rnd (5/10))),
      (''anomalies'', calculate_anomaly_risk rnd alg anomalies transaction_amount),
      (''geographic'', Num (calculate_geographic_risk rnd self (jurisdiction entity)))]"

text \<open>
  \<open>risk_scores[factor]\<close> for a factor of \<open>weights\<close>; the five keys are fixed, so the
  lookup cannot raise \<open>KeyError\<close> for a scorer built by \<open>RiskScorer_init\<close>.
\<close>

definition total_risk ::
  "(real \<Rightarrow> real) \<Rightarrow> sum_algorithm \<Rightarrow> RiskScorer \<Rightarrow> Entity \<Rightarrow> Anomaly list option
     \<Rightarrow> pyfloat option \<Rightarrow> pyfloat" where
  "total_risk rnd alg self entity anomalies transaction_amount =
     (let scores = risk_scores rnd alg self entity anomalies transaction_amount
      in py_sum rnd alg
           (map (\<lambda>(factor, w). fl_mul rnd (dict_get scores factor (Num 0)) (Num w))
              (weights self)))"

definition calculate_risk_score ::
  "(real \<Rightarrow> real) \<Rightarrow> sum_algorithm \<Rightarrow> RiskScorer \<Rightarrow> Entity \<Rightarrow> Anomaly list option
     \<Rightarrow> pyfloat option \<Rightarrow> pyfloat" where
  "calculate_risk_score rnd alg self entity anomalies transaction_amount =
     py_min (py_max (total_risk rnd alg self entity anomalies transaction_amount) (Num 0)) (Num 1)"


text \<open>
  \<open>generate_risk_reason\<close>: the list \<open>reasons\<close> is extended step by step, in the order of
  the source; \<open>risk_score\<close> is accepted and not used.
\<close>

definition generate_risk_reason ::
  "RiskScorer \<Rightarrow> Entity \<Rightarrow> real \<Rightarrow> Anomaly list option \<Rightarrow> string" where
  "generate_risk_reason self entity risk_score anomalies =
     (let reasons0 = [];
          reasons1 =
            (if etype entity = SHELL_COMPANY
             then reasons0 @ [''Entity is classified as a shell company'']
             else if etype entity = FINANCIAL_INTERMEDIARY
             then reasons0 @ [''Entity is a financial intermediary'']
             else reasons0);
          reasons2 =
            (if sanctions_status entity = Some True
             then reasons1 @ [''Entity is on sanctions list'']
             else reasons1);
          reasons3 =
            (case reputation_score entity of
               None \<Rightarrow> reasons2
             | Some r \<Rightarrow>
                 if r < 3/10
                 then reasons2 @ [''Entity has poor reputation based on news analysis'']
                 else reasons2);
          reasons4 =
            (case anomalies of
               None \<Rightarrow> reasons3
             | Some anoms \<Rightarrow>
                 if anoms = [] then reasons3
                 else foldl (\<lambda>rs anomaly. rs @ [''Anomaly detected: '' @ description anomaly])
                        reasons3 anoms);
          reasons5 =
            (case jurisdiction entity of
               None \<Rightarrow> reasons4
             | Some j \<Rightarrow>
                 if j \<noteq> [] \<and> map_of (high_risk_jurisdictions self) (lower j) \<noteq> None
                 then reasons4 @ [''Entity is based in a high-risk jurisdiction ('' @ j @ '')'']
                 else reasons4);
          reasons6 =
            (if reasons5 = []
             then reasons5 @ [''Risk score based on standard entity assessment'']
             else reasons5)
      in join '' | '' reasons6)"

subsection \<open>The explanation as the specification words it\<close>

text \<open>
  The clauses of the explanation, one definition per clause of the specification: the
  entity-type clause (only for a shell company or a financial intermediary), the sanctions
  clause (only if flagged), the reputation clause (only if the reputation score is below
  0.3), one clause per anomaly in the given order, and the jurisdiction clause (only if the
  jurisdiction is in the high-risk table).
\<close>

definition spec_entity_type_clause :: "Entity \<Rightarrow> string list" where
  "spec_entity_type_clause entity =
     (case etype entity of
        SHELL_COMPANY \<Rightarrow> [''Entity is classified as a shell company'']
      | FINANCIAL_INTERMEDIARY \<Rightarrow> [''Entity is a financial intermediary'']
      | _ \<Rightarrow> [])"

definition spec_sanctions_clause :: "Entity \<Rightarrow> string list" where
  "spec_sanctions_clause entity =
     (if sanctions_status entity = Some True then [''Entity is on sanctions list''] else [])"

definition spec_reputation_clause :: "Entity \<Rightarrow> string list" where
  "spec_reputation_clause entity =
     (case reputation_score entity of
        Some r \<Rightarrow>
          if r < 3/10 then [''Entity has poor reputation based on news analysis''] else []
      | None \<Rightarrow> [])"

definition spec_anomaly_clauses :: "Anomaly list option \<Rightarrow> string list" where
  "spec_anomaly_clauses anomalies =
     (case anomalies of
        None \<Rightarrow> []
      | Some anoms \<Rightarrow> map (\<lambda>a. ''Anomaly detected: '' @ description a) anoms)"

definition spec_jurisdiction_clause :: "RiskScorer \<Rightarrow> Entity \<Rightarrow> string list" where
  "spec_jurisdiction_clause self entity =
     (case jurisdiction entity of
        None \<Rightarrow> []
      | Some j \<Rightarrow>
          if j \<noteq> [] \<and> lower j \<in> fst ` set (high_risk_jurisdictions self)
          then [''Entity is based in a high-risk jurisdiction ('' @ j @ '')'']
          else [])"

definition spec_clauses :: "RiskScorer \<Rightarrow> Entity \<Rightarrow> Anomaly list option \<Rightarrow> string list" where
  "spec_clauses self entity anomalies =
     spec_entity_type_clause entity @ spec_sanctions_clause entity @
     spec_reputation_clause entity @ spec_anomaly_clauses anomalies @
     spec_jurisdiction_clause self entity"

definition spec_fallback_clause :: string where
  "spec_fallback_clause = ''Risk score based on standard entity assessment''"

section \<open>Entity extractor (services/entity_extractor.py)\<close>

text \<open>\<open>s.startswith(p)\<close>, \<open>s.endswith(p)\<close> and \<open>sub in s\<close> on strings.\<close>

fun startswith :: "string \<Rightarrow> string \<Rightarrow> bool" where
  "startswith s [] = True"
| "startswith [] (p # ps) = False"
| "startswith (c # cs) (p # ps) = (c = p \<and> startswith cs ps)"

definition endswith :: "string \<Rightarrow> string \<Rightarrow> bool" where
  "endswith s suf = startswith (rev s) (rev suf)"

fun contains :: "string \<Rightarrow> string \<Rightarrow> bool" where
  "contains [] sub = (sub = [])"
| "contains (c # cs) sub = (startswith (c # cs) sub \<or> contains cs sub)"

text \<open>
  The regular expressions of the extractor have two shapes: a literal followed by \<open>$\<close>
  (such as \<open>foundation$\<close> or \<open>s\.a\.$\<close>), and a literal followed by an optional dot and
  \<open>$\<close> (such as \<open>inc\.?$\<close>). Outside multi-line mode \<open>$\<close> matches at the end of the
  string and just before a line feed that ends the string.
\<close>

datatype pattern = Lit_End string | Lit_OptDot_End string

definition at_end :: "string \<Rightarrow> string \<Rightarrow> bool" where
  "at_end lit s = (endswith s lit \<or> endswith s (lit @ [CHR 0x0A]))"

fun re_search :: "pattern \<Rightarrow> string \<Rightarrow> bool" where
  "re_search (Lit_End lit) s = at_end lit s"
| "re_search (Lit_OptDot_End lit) s = (at_end lit s \<or> at_end (lit @ ''.'') s)"

definition company_suffixes :: "pattern list" where
  "company_suffixes =
     [Lit_OptDot_End ''inc'', Lit_OptDot_End ''corp'', Lit_End ''corporation'',
      Lit_OptDot_End ''ltd'', Lit_End ''limited'', Lit_End ''llc'', Lit_End ''gmbh'',
      Lit_End ''s.a.'', Lit_End ''s.p.a.'', Lit_End ''plc'']"

definition nonprofit_indicators :: "pattern list" where
  "nonprofit_indicators =
     [Lit_End ''foundation'', Lit_End ''charity'', Lit_End ''ngo'', Lit_End ''non-profit'',
      Lit_End ''nonprofit'', Lit_End ''association'', Lit_End ''society'', Lit_End ''trust'']"

definition shell_indicators :: "pattern list" where
  "shell_indicators =
     [Lit_End ''holdings'', Lit_End ''investments'', Lit_End ''group'', Lit_End ''capital'',
      Lit_End ''partners'', Lit_End ''management'', Lit_End ''consulting'', Lit_End ''advisory'']"

definition classify_entity_type :: "string \<Rightarrow> EntityType" where
  "classify_entity_type entity_name =
     (let n = lower entity_name
      in if list_ex (\<lambda>p. re_search p n) nonprofit_indicators then NON_PROFIT
         else if list_ex (\<lambda>p. re_search p n) shell_indicators then SHELL_COMPANY
         else if list_ex (\<lambda>p. re_search p n) company_suffixes then CORPORATION
         else if list_ex (\<lambda>w. contains n w)
                   [''government'', ''ministry'', ''department'', ''agency'']
         then GOVERNMENT_AGENCY
         else if list_ex (\<lambda>w. contains n w) [''bank'', ''financial'', ''investment'', ''fund'']
         then FINANCIAL_INTERMEDIARY
         else UNKNOWN)"

section \<open>Dates and times\<close>

text \<open>
  A naive \<open>datetime\<close> is the number of microseconds since a fixed midnight, a \<open>date\<close> is
  the number of the day, and a \<open>timedelta\<close> is a number of microseconds. The current time
  is a parameter of every function that reads the clock in the source.
\<close>

type_synonym datetime = int

definition day_us :: int where
  "day_us = 86400000000"

definition date :: "datetime \<Rightarrow> int" where
  "date t = t div day_us"

definition timedelta_days :: "int \<Rightarrow> int" where
  "timedelta_days n = n * day_us"

text \<open>\<open>(t - u).days\<close>: the whole days of a difference, rounded down.\<close>

definition days_between :: "datetime \<Rightarrow> datetime \<Rightarrow> int" where
  "days_between t u = (t - u) div day_us"

text \<open>\<open>x % y\<close> on floats, for a positive \<open>y\<close>.\<close>

definition py_mod :: "real \<Rightarrow> real \<Rightarrow> real" where
  "py_mod x y = x - y * of_int \<lfloor>x / y\<rfloor>"

section \<open>Stateful anomaly detector (services/anomaly_detector.py)\<close>

record Thresholds =
  th_amount :: real
  th_frequency :: nat
  th_velocity :: real
  th_round_amount :: real
  th_new_entity :: int

record txn =
  time :: datetime
  amount :: real
  currency :: string

record history =
  transactions :: "txn list"
  daily_amounts :: "int \<rightharpoonup> real"
  first_seen :: datetime

record AnomalyDetector =
  thresholds :: Thresholds
  transaction_history :: "string \<rightharpoonup> history"

definition AnomalyDetector_init :: AnomalyDetector where
  "AnomalyDetector_init =
     \<lparr> thresholds =
         \<lparr> th_amount = 1000000, th_frequency = 5, th_velocity = 100000,
           th_round_amount = 1000, th_new_entity = 30 \<rparr>,
       transaction_history = Map.empty \<rparr>"

definition is_round_number :: "AnomalyDetector \<Rightarrow> real \<Rightarrow> bool" where
  "is_round_number self amt = (py_mod amt (th_round_amount (thresholds self)) = 0)"

text \<open>
  \<open>_cleanup_transaction_history\<close> indexes the history with the entity name, which raises
  \<open>KeyError\<close> for a name that is not stored: the result \<open>None\<close>.
\<close>

definition cleanup_transaction_history ::
  "datetime \<Rightarrow> AnomalyDetector \<Rightarrow> string \<Rightarrow> AnomalyDetector option" where
  "cleanup_transaction_history current_time self entity_name =
     (case transaction_history self entity_name of
        None \<Rightarrow> None
      | Some h \<Rightarrow>
          let cutoff_time = current_time - timedelta_days 30;
              h1 = h\<lparr>transactions := filter (\<lambda>t. cutoff_time < time t) (transactions h)\<rparr>;
              cutoff_date = date cutoff_time;
              h2 = h1\<lparr>daily_amounts :=
                        (\<lambda>d. if cutoff_date < d then daily_amounts h1 d else None)\<rparr>
          in Some (self\<lparr>transaction_history := (transaction_history self)(entity_name \<mapsto> h2)\<rparr>))"

definition update_transaction_history ::
  "datetime \<Rightarrow> AnomalyDetector \<Rightarrow> string \<Rightarrow> real \<Rightarrow> string \<Rightarrow> AnomalyDetector option" where
  "update_transaction_history current_time self entity_name amt cur =
     (let h0 = (case transaction_history self entity_name of
                  None \<Rightarrow> \<lparr>transactions = [], daily_amounts = Map.empty,
                            first_seen = current_time\<rparr>
                | Some h \<Rightarrow> h);
          h1 = h0\<lparr>transactions :=
                    transactions h0 @ [\<lparr>time = current_time, amount = amt, currency = cur\<rparr>]\<rparr>;
          date_key = date current_time;
          old = (case daily_amounts h1 date_key of None \<Rightarrow> 0 | Some v \<Rightarrow> v);
          h2 = h1\<lparr>daily_amounts := (daily_amounts h1)(date_key \<mapsto> old + amt)\<rparr>
      in cleanup_transaction_history current_time
           (self\<lparr>transaction_history := (transaction_history self)(entity_name \<mapsto> h2)\<rparr>)
           entity_name)"

definition check_transaction_frequency :: "datetime \<Rightarrow> AnomalyDetector \<Rightarrow> string \<Rightarrow> bool" where
  "check_transaction_frequency current_time self entity_name =
     (case transaction_history self entity_name of
        None \<Rightarrow> False
      | Some h \<Rightarrow>
          let today = date current_time;
              today_transactions = length (filter (\<lambda>t. date (time t) = today) (transactions h))
          in th_frequency (thresholds self) < today_transactions)"

definition check_transaction_velocity :: "datetime \<Rightarrow> AnomalyDetector \<Rightarrow> string \<Rightarrow> bool" where
  "check_transaction_velocity current_time self entity_name =
     (case transaction_history self entity_name of
        None \<Rightarrow> False
      | Some h \<Rightarrow>
          let today = date current_time;
              today_amount = (case daily_amounts h today of None \<Rightarrow> 0 | Some v \<Rightarrow> v)
          in th_velocity (thresholds self) < today_amount)"

definition is_new_entity :: "datetime \<Rightarrow> AnomalyDetector \<Rightarrow> string \<Rightarrow> bool" where
  "is_new_entity current_time self entity_name =
     (case transaction_history self entity_name of
        None \<Rightarrow> True
      | Some h \<Rightarrow> days_between current_time (first_seen h) < th_new_entity (thresholds self))"

text \<open>
  The body of the loop over the entities, for one entity: the history is updated, then the
  three checks append their anomalies.
\<close>

definition entity_checks ::
  "datetime \<Rightarrow> AnomalyDetector \<Rightarrow> Entity \<Rightarrow> Anomaly list" where
  "entity_checks current_time self entity =
     (if check_transaction_frequency current_time self (name entity)
      then [\<lparr>atype = ''high_frequency'', severity = 8/10,
              description = ''High transaction frequency for '' @ name entity,
              evidence = [''Transaction frequency exceeds threshold'']\<rparr>]
      else []) @
     (if check_transaction_velocity current_time self (name entity)
      then [\<lparr>atype = ''high_velocity'', severity = 8/10,
              description = ''High transaction velocity for '' @ name entity,
              evidence = [''Transaction velocity exceeds threshold'']\<rparr>]
      else []) @
     (if is_new_entity current_time self (name entity)
      then [\<lparr>atype = ''new_entity'', severity = 6/10,
              description = ''New entity detected: '' @ name entity,
              evidence = [''Entity is new to the system'']\<rparr>]
      else [])"

fun detect_entities ::
  "datetime \<Rightarrow> real \<Rightarrow> string \<Rightarrow> Entity list \<Rightarrow> Anomaly list \<Rightarrow> AnomalyDetector
     \<Rightarrow> (Anomaly list \<times> AnomalyDetector) option" where
  "detect_entities current_time amt cur [] anomalies self = Some (anomalies, self)"
| "detect_entities current_time amt cur (entity # entities) anomalies self =
     (case update_transaction_history current_time self (name entity) amt cur of
        None \<Rightarrow> None
      | Some self' \<Rightarrow>
          detect_entities current_time amt cur entities
            (anomalies @ entity_checks current_time self' entity) self')"

text \<open>
  \<open>detect_anomalies\<close> returns the anomalies and the detector with its updated history;
  \<open>None\<close> is an exception. \<open>str_float\<close> is the text Python gives a float in an f-string.
\<close>

definition detect_anomalies ::
  "(real \<Rightarrow> string) \<Rightarrow> datetime \<Rightarrow> AnomalyDetector \<Rightarrow> real \<Rightarrow> string \<Rightarrow> Entity list
     \<Rightarrow> (Anomaly list \<times> AnomalyDetector) option" where
  "detect_anomalies str_float current_time self amt cur entities =
     (let anomalies0 = [];
          anomalies1 =
            (if th_amount (thresholds self) < amt
             then anomalies0 @
                  [\<lparr>atype = ''large_transaction'',
                    severity = min (amt / th_amount (thresholds self)) 1,
                    description = ''Large transaction amount: '' @ str_float amt @ '' '' @ cur,
                    evidence = [''Transaction amount exceeds threshold'']\<rparr>]
             else anomalies0);
          anomalies2 =
            (if is_round_number self amt
             then anomalies1 @
                  [\<lparr>atype = ''round_amount'', severity = 7/10,
                    description = ''Round number transaction: '' @ str_float amt @ '' '' @ cur,
                    evidence = [''Transaction amount is a round number'']\<rparr>]
             else anomalies1)
      in detect_entities current_time amt cur entities anomalies2 self)"

section \<open>Synthetic data generator (services/fake_data_generator.py)\<close>

record FakeDataGenerator =
  country_risk :: "(string \<times> real) list"
  default_country_risk :: real

definition FakeDataGenerator_init :: FakeDataGenerator where
  "FakeDataGenerator_init =
     \<lparr> country_risk =
         [(''RU'', 8/10), (''CN'', 7/10), (''IR'', 9/10), (''KP'', 9/10), (''SY'', 8/10),
          (''VE'', 7/10), (''MM'', 7/10), (''ZW'', 6/10), (''US'', 2/10), (''GB'', 2/10),
          (''DE'', 2/10), (''FR'', 2/10), (''CA'', 2/10)],
       default_country_risk = 4/10 \<rparr>"

text \<open>
  The anomalies that the loop body of \<open>generate_fake_anomalies\<close> appends for one entity.
  \<open>strptime\<close> stands for \<open>datetime.strptime(_, "%Y-%m-%d")\<close>: it gives the parsed time, or
  \<open>None\<close> where Python raises \<open>ValueError\<close>, which the source catches and passes over.
\<close>

definition fake_entity_anomalies ::
  "(string \<Rightarrow> datetime option) \<Rightarrow> datetime \<Rightarrow> FakeDataGenerator \<Rightarrow> Entity \<Rightarrow> Anomaly list" where
  "fake_entity_anomalies strptime current_time self entity =
     (case jurisdiction entity of
        None \<Rightarrow> []
      | Some j \<Rightarrow>
          (case map_of (country_risk self) j of
             None \<Rightarrow> []
           | Some w \<Rightarrow>
               if 6/10 < w
               then [\<lparr>atype = ''high_risk_jurisdiction'', severity = w,
                       description = ''Entity in high-risk jurisdiction: '' @ j,
                       evidence = [''Entity jurisdiction is '' @ j]\<rparr>]
               else [])) @
     (if etype entity = SHELL_COMPANY
      then [\<lparr>atype = ''shell_company'', severity = 8/10,
              description = ''Entity appears to be a shell company: '' @ name entity,
              evidence = [''Entity classification'', ''Structure analysis'']\<rparr>]
      else []) @
     (case incorporation_date entity of
        None \<Rightarrow> []
      | Some s \<Rightarrow>
          if s = [] then []
          else (case strptime s of
                  None \<Rightarrow> []
                | Some incorporation \<Rightarrow>
                    if days_between current_time incorporation < 180
                    then [\<lparr>atype = ''new_entity'', severity = 6/10,
                            description = ''Recently formed entity: '' @ name entity,
                            evidence = [''Incorporation date: '' @ s]\<rparr>]
                    else []))"

text \<open>The local list \<open>anomalies\<close> of \<open>generate_fake_anomalies\<close> when its body ends.\<close>

definition fake_anomalies_list ::
  "(real \<Rightarrow> string) \<Rightarrow> (string \<Rightarrow> datetime option) \<Rightarrow> datetime \<Rightarrow> FakeDataGenerator
     \<Rightarrow> real \<Rightarrow> Entity list \<Rightarrow> Anomaly list" where
  "fake_anomalies_list str_float strptime current_time self amt entities =
     (if 1000000 < amt
      then [\<lparr>atype = ''large_transaction'', severity = min (amt / 1000000) 1,
              description = ''Large transaction amount: '' @ str_float amt,
              evidence = [''Transaction amount exceeds threshold'']\<rparr>]
      else []) @
     (if py_mod amt 1000 = 0 \<and> 10000 < amt
      then [\<lparr>atype = ''round_amount'', severity = 7/10,
              description = ''Round number transaction: '' @ str_float amt,
              evidence = [''Transaction amount is a round number'']\<rparr>]
      else []) @
     concat (map (fake_entity_anomalies strptime current_time self) entities)"

text \<open>
  \<open>generate_fake_anomalies\<close> builds the list and ends without a \<open>return\<close> statement, so
  the call evaluates to Python's \<open>None\<close>, whatever the list holds.
\<close>

definition generate_fake_anomalies ::
  "(real \<Rightarrow> string) \<Rightarrow> (string \<Rightarrow> datetime option) \<Rightarrow> datetime \<Rightarrow> FakeDataGenerator
     \<Rightarrow> real \<Rightarrow> Entity list \<Rightarrow> Anomaly list option" where
  "generate_fake_anomalies str_float strptime current_time self amt entities =
     (let anomalies = fake_anomalies_list str_float strptime current_time self amt entities
      in None)"

section \<open>Closed forms and sequences of calls\<close>

text \<open>
  The entry that \<open>_update_transaction_history\<close> starts from: the stored one, or the fresh
  entry it creates for a name it has not seen.
\<close>

definition prior_history :: "datetime \<Rightarrow> AnomalyDetector \<Rightarrow> string \<Rightarrow> history" where
  "prior_history current_time self entity_name =
     (case transaction_history self entity_name of
        None \<Rightarrow> \<lparr>transactions = [], daily_amounts = Map.empty, first_seen = current_time\<rparr>
      | Some h \<Rightarrow> h)"

text \<open>
  The entry that \<open>_update_transaction_history\<close> leaves for the entity: the new transaction
  appended and the day's amount raised, then both pruned by \<open>_cleanup_transaction_history\<close>.
\<close>

definition updated_history :: "datetime \<Rightarrow> AnomalyDetector \<Rightarrow> string \<Rightarrow> real \<Rightarrow> string \<Rightarrow> history" where
  "updated_history now self n amt cur =
     (prior_history now self n)
     \<lparr>transactions :=
        filter (\<lambda>t. now - timedelta_days 30 < time t)
          (transactions (prior_history now self n) @ [\<lparr>time = now, amount = amt, currency = cur\<rparr>]),
      daily_amounts :=
        (\<lambda>d. if date (now - timedelta_days 30) < d
             then ((daily_amounts (prior_history now self n))
                     (date now \<mapsto>
                        (case daily_amounts (prior_history now self n) (date now) of
                           None \<Rightarrow> 0 | Some v \<Rightarrow> v) + amt)) d
             else None)\<rparr>"

text \<open>
  Successive calls of \<open>detect_anomalies\<close> on one detector, each with its own current time,
  amount, currency and entities; the result lists the anomalies of each call.
\<close>

fun detect_sequence ::
  "(real \<Rightarrow> string) \<Rightarrow> AnomalyDetector \<Rightarrow> (datetime \<times> real \<times> string \<times> Entity list) list
     \<Rightarrow> (Anomaly list list \<times> AnomalyDetector) option" where
  "detect_sequence str_float self [] = Some ([], self)"
| "detect_sequence str_float self ((current_time, amt, cur, entities) # calls) =
     (case detect_anomalies str_float current_time self amt cur entities of
        None \<Rightarrow> None
      | Some (anomalies, self') \<Rightarrow>
          (case detect_sequence str_float self' calls of
             None \<Rightarrow> None
           | Some (outs, self'') \<Rightarrow> Some (anomalies # outs, self'')))"

text \<open>Whether a list of anomalies holds one of the given type.\<close>

definition has_type :: "string \<Rightarrow> Anomaly list \<Rightarrow> bool" where
  "has_type ty anomalies = list_ex (\<lambda>a. atype a = ty) anomalies"

text \<open>
  The stored history of an entity consists of \<open>m\<close> transactions, all dated on day \<open>d\<close>
  (no entry counts as none).
\<close>

definition day_history :: "int \<Rightarrow> nat \<Rightarrow> AnomalyDetector \<Rightarrow> string \<Rightarrow> bool" where
  "day_history d m self n =
     (case transaction_history self n of
        None \<Rightarrow> m = 0
      | Some h \<Rightarrow> length (transactions h) = m \<and> list_all (\<lambda>t. date (time t) = d) (transactions h))"

text \<open>The anomalies that the rules build, by type.\<close>

definition high_frequency_anomaly :: "string \<Rightarrow> Anomaly" where
  "high_frequency_anomaly n =
     \<lparr>atype = ''high_frequency'', severity = 8/10,
      description = ''High transaction frequency for '' @ n,
      evidence = [''Transaction frequency exceeds threshold'']\<rparr>"

definition round_amount_anomaly :: "string \<Rightarrow> Anomaly" where
  "round_amount_anomaly text =
     \<lparr>atype = ''round_amount'', severity = 7/10,
      description = ''Round number transaction: '' @ text,
      evidence = [''Transaction amount is a round number'']\<rparr>"

definition high_risk_jurisdiction_anomaly :: "string \<Rightarrow> real \<Rightarrow> Anomaly" where
  "high_risk_jurisdiction_anomaly j w =
     \<lparr>atype = ''high_risk_jurisdiction'', severity = w,
      description = ''Entity in high-risk jurisdiction: '' @ j,
      evidence = [''Entity jurisdiction is '' @ j]\<rparr>"

text \<open>A float is a number between the two bounds; not-a-number is in no interval.\<close>

fun in_interval :: "real \<Rightarrow> real \<Rightarrow> pyfloat \<Rightarrow> bool" where
  "in_interval lo hi (Num v) = (lo \<le> v \<and> v \<le> hi)"
| "in_interval lo hi NaN = False"

text \<open>
  What the bounds on the weighted sum need of a rounding function: it is monotone, and on
  arguments of magnitude up to \<open>b\<close> it moves its argument by at most \<open>e\<close>.
\<close>

definition bounded_error :: "real \<Rightarrow> real \<Rightarrow> (real \<Rightarrow> real) \<Rightarrow> bool" where
  "bounded_error b e rnd =
     ((\<forall>x y. x \<le> y \<longrightarrow> rnd x \<le> rnd y) \<and> (\<forall>x. \<bar>x\<bar> \<le> b \<longrightarrow> \<bar>rnd x - x\<bar> \<le> e))"

text \<open>
  The weighted sum of the sanctioned shell company as the specification writes it,
  \<open>0.30 * 0.8 + 0.25 * 0.8 + 0.20 * 0.5 + 0.15 * 0.0 + 0.10 * 0.8\<close>, evaluated as Python
  evaluates the expression: every literal, product and sum is rounded, the sums from left
  to right.
\<close>

definition spec_weighted_sum :: "(real \<Rightarrow> real) \<Rightarrow> real" where
  "spec_weighted_sum rnd =
     rnd (rnd (rnd (rnd (rnd (rnd (30/100) * rnd (8/10)) + rnd (rnd (25/100) * rnd (8/10)))
                    + rnd (rnd (20/100) * rnd (5/10)))
               + rnd (rnd (15/100) * rnd 0))
          + rnd (rnd (10/100) * rnd (8/10)))"

text \<open>
  The stored history of an entity lies within the trailing 30-day window of the given time:
  every transaction is newer than the cutoff, every day of the per-day map is later than the
  cutoff date.
\<close>

definition within_window :: "datetime \<Rightarrow> AnomalyDetector \<Rightarrow> string \<Rightarrow> bool" where
  "within_window now self n =
     (case transaction_history self n of
        None \<Rightarrow> False
      | Some h \<Rightarrow>
          (\<forall>t \<in> set (transactions h). now - timedelta_days 30 < time t) \<and>
          (\<forall>d \<in> dom (daily_amounts h). date (now - timedelta_days 30) < d))"

section \<open>Example inputs\<close>

text \<open>Concrete inputs at which the theorems below are evaluated.\<close>

definition sanctioned_shell_ru :: Entity where
  "sanctioned_shell_ru =
     (Entity_init ''Volga Holdings'' SHELL_COMPANY (9/10) [''NLP Extraction''])
       \<lparr> jurisdiction := Some ''ru'', sanctions_status := Some True, reputation_score := None \<rparr>"

definition plain_entity :: Entity where
  "plain_entity =
     (Entity_init ''Acme Widgets'' CORPORATION (9/10) [''Pattern Matching''])
       \<lparr> reputation_score := Some (1/2) \<rparr>"

definition round_anomaly :: Anomaly where
  "round_anomaly =
     \<lparr> atype = ''round_amount'', severity = 7/10,
       description = ''Round number transaction: 5000.0 USD'',
       evidence = [''Transaction amount is a round number''] \<rparr>"

text \<open>
  Stand-ins for the two library functions the model takes as parameters: the text of a float
  in an f-string, right on the amounts used here, and \<open>strptime\<close> with the format
  \<open>%Y-%m-%d\<close>, right on two dates; day 0 is 2024-01-01, 2024-06-01 is day 152, and
  \<open>example_now\<close> is noon of 2024-06-11.
\<close>

definition example_str_float :: "real \<Rightarrow> string" where
  "example_str_float x = (if x = 5000 then ''5000.0'' else if x = 100 then ''100.0'' else ''0.0'')"

definition example_strptime :: "string \<Rightarrow> datetime option" where
  "example_strptime s =
     (if s = ''2024-01-01'' then Some 0
      else if s = ''2024-06-01'' then Some (timedelta_days 152)
      else None)"

definition example_now :: datetime where
  "example_now = timedelta_days 162 + 43200000000"

definition recent_entity :: Entity where
  "recent_entity =
     (Entity_init ''Newco Trading'' CORPORATION (9/10) [''Company Registry''])
       \<lparr> incorporation_date := Some ''2024-06-01'', reputation_score := Some (1/2) \<rparr>"

definition shell_RU :: Entity where
  "shell_RU = sanctioned_shell_ru \<lparr> jurisdiction := Some ''RU'' \<rparr>"

definition six_calls :: "(datetime \<times> real \<times> string \<times> Entity list) list" where
  "six_calls =
     [(3600000000, 100, ''USD'', [plain_entity]), (7200000000, 100, ''USD'', [plain_entity]),
      (10800000000, 100, ''USD'', [plain_entity]), (14400000000, 100, ''USD'', [plain_entity]),
      (18000000000, 100, ''USD'', [plain_entity]), (21600000000, 100, ''USD'', [plain_entity])]"

definition old_detector :: AnomalyDetector where
  "old_detector =
     AnomalyDetector_init
       \<lparr> transaction_history :=
           [''Acme Widgets'' \<mapsto>
              \<lparr> transactions = [\<lparr>time = 0, amount = 5000, currency = ''USD''\<rparr>],
                daily_amounts = [0 \<mapsto> 5000], first_seen = 0 \<rparr>] \<rparr>"

section \<open>Properties of the rounding functions\<close>

lemma f64_pos_scale:
  "e \<le> k \<Longrightarrow> 2 ^ 52 \<le> x * 2 ^ e \<Longrightarrow> x * 2 ^ e < 2 ^ 53 \<Longrightarrow>
   f64_pos k x = of_int (round_half_even (x * 2 ^ e)) / 2 ^ e"
proof (induction e arbitrary: k x)
  case 0
  then show ?case by (cases k) simp_all
next
  case (Suc e)
  then obtain k' where k: "k = Suc k'" and le: "e \<le> k'" by (cases k) auto
  have "1 \<le> (2::real) ^ e" by simp
  from Suc.prems(3) have "x * 2 * 2 ^ e < 2 ^ 53" by (simp add: mult.assoc)
  have "(0::real) < 2 ^ 52" by simp
  with Suc.prems(2) have "0 < x * 2 ^ Suc e" by linarith
  then have pos: "0 < x" by (simp add: zero_less_mult_iff)
  have "x * 2 * 1 \<le> x * 2 * 2 ^ e" using pos by (intro mult_left_mono) simp_all
  with \<open>x * 2 * 2 ^ e < 2 ^ 53\<close> have small: "x < 2 ^ 52" by simp
  have ih: "f64_pos k' (2 * x) = of_int (round_half_even (2 * x * 2 ^ e)) / 2 ^ e"
    using Suc.prems by (intro Suc.IH le) (simp_all add: mult.assoc mult.commute)
  show ?case using small ih by (simp add: k mult.assoc mult.commute)
qed




















lemma be_err: "bounded_error b e rnd \<Longrightarrow> \<bar>x\<bar> \<le> b \<Longrightarrow> \<bar>rnd x - x\<bar> \<le> e"
  by (simp add: bounded_error_def)

lemma be_between:
  "bounded_error b e rnd \<Longrightarrow> lo \<le> x \<Longrightarrow> x \<le> hi \<Longrightarrow> - b \<le> lo \<Longrightarrow> hi \<le> b \<Longrightarrow>
   lo - e \<le> rnd x \<and> rnd x \<le> hi + e"
  using be_err [of b e rnd x] by (simp add: abs_le_iff)

section \<open>The risk score is bounded\<close>


lemma in_interval_weaken:
  "in_interval lo hi x \<Longrightarrow> lo' \<le> lo \<Longrightarrow> hi \<le> hi' \<Longrightarrow> in_interval lo' hi' x"
  by (cases x) simp_all






























section \<open>The weighted sum of a sanctioned shell company\<close>

lemma f64_zero: "f64 0 = 0" by (simp add: f64_def)

lemma f64_val_1: "f64 (3 / 10) = 5404319552844595 / 18014398509481984"
  using f64_pos_scale [of 54 1074 "3 / 10"]
  by (simp add: f64_def round_half_even_def)

lemma f64_val_2: "f64 (1 / 4) = 1 / 4"
  using f64_pos_scale [of 54 1074 "1 / 4"]
  by (simp add: f64_def round_half_even_def)

lemma f64_val_3: "f64 (1 / 5) = 3602879701896397 / 18014398509481984"
  using f64_pos_scale [of 55 1074 "1 / 5"]
  by (simp add: f64_def round_half_even_def)

lemma f64_val_4: "f64 (3 / 20) = 5404319552844595 / 36028797018963968"
  using f64_pos_scale [of 55 1074 "3 / 20"]
  by (simp add: f64_def round_half_even_def)

lemma f64_val_5: "f64 (1 / 10) = 3602879701896397 / 36028797018963968"
  using f64_pos_scale [of 56 1074 "1 / 10"]
  by (simp add: f64_def round_half_even_def)

lemma f64_val_6: "f64 (4 / 5) = 3602879701896397 / 4503599627370496"
  using f64_pos_scale [of 53 1074 "4 / 5"]
  by (simp add: f64_def round_half_even_def)

lemma f64_val_7: "f64 (1 / 2) = 1 / 2"
  using f64_pos_scale [of 53 1074 "1 / 2"]
  by (simp add: f64_def round_half_even_def)

lemma f64_val_8: "f64 (19471113219505603967277331424215 / 81129638414606681695789005144064) = 1080863910568919 / 4503599627370496"
  using f64_pos_scale [of 55 1074 "19471113219505603967277331424215 / 81129638414606681695789005144064"]
  by (simp add: f64_def round_half_even_def)

lemma f64_val_9: "f64 (3602879701896397 / 18014398509481984) = 3602879701896397 / 18014398509481984"
  using f64_pos_scale [of 55 1074 "3602879701896397 / 18014398509481984"]
  by (simp add: f64_def round_half_even_def)

lemma f64_val_10: "f64 (3602879701896397 / 36028797018963968) = 3602879701896397 / 36028797018963968"
  using f64_pos_scale [of 56 1074 "3602879701896397 / 36028797018963968"]
  by (simp add: f64_def round_half_even_def)

lemma f64_val_11: "f64 (12980742146337070512478121581609 / 162259276829213363391578010288128) = 1441151880758559 / 18014398509481984"
  using f64_pos_scale [of 56 1074 "12980742146337070512478121581609 / 162259276829213363391578010288128"]
  by (simp add: f64_def round_half_even_def)

lemma f64_val_12: "f64 (1080863910568919 / 4503599627370496) = 1080863910568919 / 4503599627370496"
  using f64_pos_scale [of 55 1074 "1080863910568919 / 4503599627370496"]
  by (simp add: f64_def round_half_even_def)

lemma f64_val_13: "f64 (7926335344172073 / 18014398509481984) = 7926335344172073 / 18014398509481984"
  using f64_pos_scale [of 54 1074 "7926335344172073 / 18014398509481984"]
  by (simp add: f64_def round_half_even_def)

lemma f64_val_14: "f64 (19455550390240543 / 36028797018963968) = 607985949695017 / 1125899906842624"
  using f64_pos_scale [of 53 1074 "19455550390240543 / 36028797018963968"]
  by (simp add: f64_def round_half_even_def)

lemma f64_val_15: "f64 (607985949695017 / 1125899906842624) = 607985949695017 / 1125899906842624"
  using f64_pos_scale [of 53 1074 "607985949695017 / 1125899906842624"]
  by (simp add: f64_def round_half_even_def)

lemma f64_val_16: "f64 (11168927075878831 / 18014398509481984) = 698057942242427 / 1125899906842624"
  using f64_pos_scale [of 53 1074 "11168927075878831 / 18014398509481984"]
  by (simp add: f64_def round_half_even_def)

lemma f64_val_17: "f64 (- (3602879701896397 / 18014398509481984)) = - (3602879701896397 / 18014398509481984)"
  using f64_pos_scale [of 55 1074 "3602879701896397 / 18014398509481984"]
  by (simp add: f64_def round_half_even_def)

lemma f64_val_18: "f64 (- (1801439850948199 / 18014398509481984)) = - (1801439850948199 / 18014398509481984)"
  using f64_pos_scale [of 56 1074 "1801439850948199 / 18014398509481984"]
  by (simp add: f64_def round_half_even_def)

lemma f64_val_19: "f64 (- (1 / 36028797018963968)) = - (1 / 36028797018963968)"
  using f64_pos_scale [of 107 1074 "1 / 36028797018963968"]
  by (simp add: f64_def round_half_even_def)

lemma f64_val_20: "f64 (- (45035996273705 / 562949953421312)) = - (45035996273705 / 562949953421312)"
  using f64_pos_scale [of 56 1074 "45035996273705 / 562949953421312"]
  by (simp add: f64_def round_half_even_def)

lemma f64_val_21: "f64 (- (1 / 18014398509481984)) = - (1 / 18014398509481984)"
  using f64_pos_scale [of 106 1074 "1 / 18014398509481984"]
  by (simp add: f64_def round_half_even_def)

lemma f64_val_22: "f64 (- (3 / 36028797018963968)) = - (3 / 36028797018963968)"
  using f64_pos_scale [of 106 1074 "3 / 36028797018963968"]
  by (simp add: f64_def round_half_even_def)

lemma f64_val_23: "f64 (22337854151757661 / 36028797018963968) = 5584463537939415 / 9007199254740992"
  using f64_pos_scale [of 53 1074 "22337854151757661 / 36028797018963968"]
  by (simp add: f64_def round_half_even_def)

lemma f64_val_24: "f64 (31 / 50) = 5584463537939415 / 9007199254740992"
  using f64_pos_scale [of 53 1074 "31 / 50"]
  by (simp add: f64_def round_half_even_def)

lemmas f64_values = f64_zero f64_val_1 f64_val_2 f64_val_3 f64_val_4 f64_val_5 f64_val_6 f64_val_7 f64_val_8 f64_val_9 f64_val_10 f64_val_11 f64_val_12 f64_val_13 f64_val_14 f64_val_15 f64_val_16 f64_val_17 f64_val_18 f64_val_19 f64_val_20 f64_val_21 f64_val_22 f64_val_23 f64_val_24

lemma lower_ru: "lower ''ru'' = ''ru''"
  by (simp add: lower_def lower_char_def ascii_upper_def ascii_lower_def)

lemma f64_one: "f64 1 = 1"
  using f64_pos_scale [of 52 1074 1]
  by (simp add: f64_def round_half_even_def)

lemma products_f64_sanctioned_shell_ru:
  assumes "etype e = SHELL_COMPANY" "sanctions_status e = Some True"
    "jurisdiction e = Some ''ru''" "reputation_score e = None"
  shows "total_risk f64 alg (RiskScorer_init f64) e None amt =
     py_sum f64 alg
       [Num (1080863910568919 / 4503599627370496), Num (3602879701896397 / 18014398509481984),
        Num (3602879701896397 / 36028797018963968), Num 0,
        Num (1441151880758559 / 18014398509481984)]"
  using assms
  by (simp add: total_risk_def risk_scores_def RiskScorer_init_def dict_get_def
      calculate_anomaly_risk_def calculate_geographic_risk_def lower_ru f64_values)

lemma total_risk_f64_naive_sanctioned_shell_ru:
  assumes "etype e = SHELL_COMPANY" "sanctions_status e = Some True"
    "jurisdiction e = Some ''ru''" "reputation_score e = None"
  shows "total_risk f64 Naive_Sum (RiskScorer_init f64) e None amt
           = Num (698057942242427 / 1125899906842624)"
  unfolding products_f64_sanctioned_shell_ru [OF assms]
  by (simp add: py_sum_def f64_values)

lemma total_risk_f64_neumaier_sanctioned_shell_ru:
  assumes "etype e = SHELL_COMPANY" "sanctions_status e = Some True"
    "jurisdiction e = Some ''ru''" "reputation_score e = None"
  shows "total_risk f64 Neumaier_Sum (RiskScorer_init f64) e None amt
           = Num (5584463537939415 / 9007199254740992)"
  unfolding products_f64_sanctioned_shell_ru [OF assms]
  by (simp add: py_sum_def Let_def f64_values)

lemma total_risk_exact_sanctioned_shell_ru:
  assumes "etype e = SHELL_COMPANY" "sanctions_status e = Some True"
    "jurisdiction e = Some ''ru''" "reputation_score e = None"
  shows "total_risk exact alg (RiskScorer_init exact) e None amt = Num (62 / 100)"
  using assms
  by (cases alg)
     (simp_all add: total_risk_def risk_scores_def RiskScorer_init_def dict_get_def py_sum_def
      Let_def calculate_anomaly_risk_def calculate_geographic_risk_def lower_ru exact_def)

lemma spec_weighted_sum_f64: "spec_weighted_sum f64 = 698057942242427 / 1125899906842624"
  by (simp add: spec_weighted_sum_def f64_values)

lemma spec_weighted_sum_exact: "spec_weighted_sum exact = 62 / 100"
  by (simp add: spec_weighted_sum_def exact_def)

lemma sanctioned_shell_ru_fields:
  "etype sanctioned_shell_ru = SHELL_COMPANY"
  "sanctions_status sanctioned_shell_ru = Some True"
  "jurisdiction sanctioned_shell_ru = Some ''ru''"
  "reputation_score sanctioned_shell_ru = None"
  by (simp_all add: sanctioned_shell_ru_def Entity_init_def)

text \<open>
  Claim C2, as stated, fails on the code: the score of the sanctioned shell company in
  \<open>ru\<close> is not at once the value of the expression
  \<open>0.30*0.8 + 0.25*0.8 + 0.20*0.5 + 0.15*0.0 + 0.10*0.8\<close> and 0.62. In binary64
  arithmetic the expression does not evaluate to the float of the literal \<open>0.62\<close>; under
  the left-to-right summation the score differs from that float, under the compensated
  summation it differs from the value of the expression, and under neither is it the
  number 0.62.
\<close>

theorem risk_score_sanctioned_shell_ru_not_062:
  "spec_weighted_sum f64 \<noteq> f64 (62 / 100) \<and>
   calculate_risk_score f64 Naive_Sum (RiskScorer_init f64) sanctioned_shell_ru None None
     \<noteq> Num (f64 (62 / 100)) \<and>
   calculate_risk_score f64 Neumaier_Sum (RiskScorer_init f64) sanctioned_shell_ru None None
     \<noteq> Num (spec_weighted_sum f64) \<and>
   calculate_risk_score f64 Naive_Sum (RiskScorer_init f64) sanctioned_shell_ru None None
     \<noteq> Num (62 / 100) \<and>
   calculate_risk_score f64 Neumaier_Sum (RiskScorer_init f64) sanctioned_shell_ru None None
     \<noteq> Num (62 / 100)"
  using total_risk_f64_naive_sanctioned_shell_ru [OF sanctioned_shell_ru_fields, of None]
    total_risk_f64_neumaier_sanctioned_shell_ru [OF sanctioned_shell_ru_fields, of None]
  by (simp add: calculate_risk_score_def py_min_def py_max_def spec_weighted_sum_f64 f64_val_24)

text \<open>
  Claim C2, amended. For an entity of type shell company with sanctions status true,
  jurisdiction \<open>ru\<close>, no reputation score and no anomalies, the score is the weighted sum
  \<open>0.30 * 0.8 + 0.25 * 0.8 + 0.20 * 0.5 + 0.15 * 0.0 + 0.10 * 0.8\<close>, which is exactly 0.62
  when every operation is exact. With every operation rounded to binary64, as the code
  computes it, the score depends on the summation of the interpreter: under the
  left-to-right summation it is the float \<open>698057942242427 / 2^50\<close> (printed
  0.6200000000000001), the value of the expression in floats, which lies \<open>2^-53\<close> above the
  float of the literal \<open>0.62\<close>; under the compensated summation it is the float of the
  literal \<open>0.62\<close>, \<open>5584463537939415 / 2^53\<close>.
\<close>

theorem risk_score_sanctioned_shell_ru:
  assumes "etype e = SHELL_COMPANY" and "sanctions_status e = Some True"
    and "jurisdiction e = Some ''ru''" and "reputation_score e = None"
  shows "calculate_risk_score exact alg (RiskScorer_init exact) e None amt = Num (62 / 100) \<and>
         spec_weighted_sum exact = 62 / 100 \<and>
         calculate_risk_score f64 Naive_Sum (RiskScorer_init f64) e None amt
           = Num (698057942242427 / 2 ^ 50) \<and>
         spec_weighted_sum f64 = 698057942242427 / 2 ^ 50 \<and>
         calculate_risk_score f64 Neumaier_Sum (RiskScorer_init f64) e None amt
           = Num (f64 (62 / 100)) \<and>
         f64 (62 / 100) = 5584463537939415 / 2 ^ 53 \<and>
         698057942242427 / 2 ^ 50 = f64 (62 / 100) + 1 / 2 ^ 53"
  using total_risk_f64_naive_sanctioned_shell_ru [OF assms, of amt]
    total_risk_f64_neumaier_sanctioned_shell_ru [OF assms, of amt]
    total_risk_exact_sanctioned_shell_ru [OF assms, of alg amt]
  by (simp add: calculate_risk_score_def py_min_def py_max_def spec_weighted_sum_f64
      spec_weighted_sum_exact f64_val_24)

theorem risk_score_sanctioned_shell_ru_witness:
  "etype sanctioned_shell_ru = SHELL_COMPANY \<and>
   sanctions_status sanctioned_shell_ru = Some True \<and>
   jurisdiction sanctioned_shell_ru = Some ''ru'' \<and>
   reputation_score sanctioned_shell_ru = None \<and>
   calculate_risk_score exact Naive_Sum (RiskScorer_init exact) sanctioned_shell_ru None None
     = Num (62 / 100) \<and>
   calculate_risk_score f64 Naive_Sum (RiskScorer_init f64) sanctioned_shell_ru None None
     = Num (698057942242427 / 2 ^ 50) \<and>
   calculate_risk_score f64 Neumaier_Sum (RiskScorer_init f64) sanctioned_shell_ru None None
     = Num (f64 (62 / 100))"
  using risk_score_sanctioned_shell_ru [OF sanctioned_shell_ru_fields, of Naive_Sum None]
  by (simp add: sanctioned_shell_ru_fields)

section \<open>The default reputation score\<close>

text \<open>
  Claim C10. An entity constructed without an explicit reputation score has the default
  0.0, not \<open>None\<close>, so the reputation entry of \<open>risk_scores\<close> is \<open>1.0 - 0.0 = 1.0\<close>, the
  maximum, in exact and in binary64 arithmetic alike; the neutral 0.5 is used only when the
  reputation score is set to \<open>None\<close>.
\<close>

theorem default_reputation_is_maximum_risk:
  "reputation_score (Entity_init n t c ev) = Some 0 \<and>
   dict_get (risk_scores exact alg self (Entity_init n t c ev) anomalies amt) ''reputation'' (Num 0)
     = Num 1 \<and>
   dict_get (risk_scores f64 alg self (Entity_init n t c ev) anomalies amt) ''reputation'' (Num 0)
     = Num 1 \<and>
   dict_get (risk_scores exact alg self ((Entity_init n t c ev)\<lparr>reputation_score := None\<rparr>)
      anomalies amt) ''reputation'' (Num 0) = Num (5 / 10) \<and>
   dict_get (risk_scores f64 alg self ((Entity_init n t c ev)\<lparr>reputation_score := None\<rparr>)
      anomalies amt) ''reputation'' (Num 0) = Num (5 / 10)"
  by (simp add: Entity_init_def risk_scores_def dict_get_def exact_def f64_one f64_val_7)

section \<open>Classification by name\<close>

lemma lower_example_foundation_inc:
  "lower ''Example Foundation Inc'' = ''example foundation inc''"
  by (simp add: lower_def lower_char_def ascii_upper_def ascii_lower_def)

lemma lower_example_inc_foundation:
  "lower ''Example Inc Foundation'' = ''example inc foundation''"
  by (simp add: lower_def lower_char_def ascii_upper_def ascii_lower_def)

lemma classify_example_foundation_inc:
  "classify_entity_type ''Example Foundation Inc'' = CORPORATION"
  by (simp add: classify_entity_type_def lower_example_foundation_inc nonprofit_indicators_def
      shell_indicators_def company_suffixes_def at_end_def endswith_def)

lemma classify_example_inc_foundation:
  "classify_entity_type ''Example Inc Foundation'' = NON_PROFIT"
  by (simp add: classify_entity_type_def lower_example_inc_foundation nonprofit_indicators_def
      at_end_def endswith_def)

text \<open>
  Claim C3, as stated, fails on the code: the non-profit indicators are matched at the end
  of the name only, the name \<open>Example Foundation Inc\<close> ends in \<open>inc\<close>, and the classifier
  does not return the non-profit type for it.
\<close>

theorem classify_example_foundation_inc_not_nonprofit:
  "classify_entity_type ''Example Foundation Inc'' \<noteq> NON_PROFIT"
  by (simp add: classify_example_foundation_inc)

text \<open>
  Claim C3, amended. The classifier checks the non-profit indicators first and returns on
  the first match: a name whose lower-case form matches a non-profit indicator is a
  non-profit whatever else it matches, and a name that matches no non-profit and no
  shell-company indicator but a corporate suffix is a corporation. The indicators of
  these groups are matched at the end of the name, so \<open>Example Foundation Inc\<close> is
  classified as a corporation, and \<open>Example Inc Foundation\<close> as a non-profit.
\<close>

theorem classify_entity_type_priority:
  "(list_ex (\<lambda>p. re_search p (lower n)) nonprofit_indicators \<longrightarrow>
      classify_entity_type n = NON_PROFIT) \<and>
   (\<not> list_ex (\<lambda>p. re_search p (lower n)) nonprofit_indicators \<and>
    \<not> list_ex (\<lambda>p. re_search p (lower n)) shell_indicators \<and>
    list_ex (\<lambda>p. re_search p (lower n)) company_suffixes \<longrightarrow>
      classify_entity_type n = CORPORATION) \<and>
   classify_entity_type ''Example Foundation Inc'' = CORPORATION \<and>
   classify_entity_type ''Example Inc Foundation'' = NON_PROFIT"
  by (simp add: classify_example_foundation_inc classify_example_inc_foundation)
     (simp add: classify_entity_type_def)

theorem classify_entity_type_priority_witness:
  "list_ex (\<lambda>p. re_search p (lower ''Example Inc Foundation'')) nonprofit_indicators \<and>
   classify_entity_type ''Example Inc Foundation'' = NON_PROFIT \<and>
   \<not> list_ex (\<lambda>p. re_search p (lower ''Example Foundation Inc'')) nonprofit_indicators \<and>
   \<not> list_ex (\<lambda>p. re_search p (lower ''Example Foundation Inc'')) shell_indicators \<and>
   list_ex (\<lambda>p. re_search p (lower ''Example Foundation Inc'')) company_suffixes \<and>
   classify_entity_type ''Example Foundation Inc'' = CORPORATION"
  using classify_entity_type_priority [of "''Example Inc Foundation''"]
    classify_entity_type_priority [of "''Example Foundation Inc''"]
  by (simp add: lower_example_foundation_inc lower_example_inc_foundation
      nonprofit_indicators_def shell_indicators_def company_suffixes_def at_end_def endswith_def)

section \<open>The explanation of a risk score\<close>

lemma foldl_snoc_map: "foldl (\<lambda>rs a. rs @ [f a]) init xs = init @ map f xs"
  by (induction xs arbitrary: init) simp_all

lemma reason_step1:
  "(if etype entity = SHELL_COMPANY then [] @ [''Entity is classified as a shell company'']
    else if etype entity = FINANCIAL_INTERMEDIARY then [] @ [''Entity is a financial intermediary'']
    else []) = spec_entity_type_clause entity"
  by (cases "etype entity") (simp_all add: spec_entity_type_clause_def)

lemma reason_step2:
  "(if sanctions_status entity = Some True then rs @ [''Entity is on sanctions list''] else rs)
     = rs @ spec_sanctions_clause entity"
  by (simp add: spec_sanctions_clause_def)

lemma reason_step3:
  "(case reputation_score entity of
      None \<Rightarrow> rs
    | Some r \<Rightarrow> if r < 3/10
               then rs @ [''Entity has poor reputation based on news analysis'']
               else rs)
     = rs @ spec_reputation_clause entity"
  by (simp add: spec_reputation_clause_def split: option.splits)

lemma reason_step4:
  "(case anomalies of
      None \<Rightarrow> rs
    | Some anoms \<Rightarrow>
        if anoms = [] then rs
        else foldl (\<lambda>rs anomaly. rs @ [''Anomaly detected: '' @ description anomaly]) rs anoms)
     = rs @ spec_anomaly_clauses anomalies"
  by (simp add: spec_anomaly_clauses_def foldl_snoc_map split: option.splits)

lemma reason_step5:
  "(case jurisdiction entity of
      None \<Rightarrow> rs
    | Some j \<Rightarrow>
        if j \<noteq> [] \<and> map_of (high_risk_jurisdictions self) (lower j) \<noteq> None
        then rs @ [''Entity is based in a high-risk jurisdiction ('' @ j @ '')'']
        else rs)
     = rs @ spec_jurisdiction_clause self entity"
  by (simp add: spec_jurisdiction_clause_def map_of_eq_None_iff split: option.splits)

lemma generate_risk_reason_eq_spec:
  "generate_risk_reason self entity score anomalies =
     join '' | '' (if spec_clauses self entity anomalies = [] then [spec_fallback_clause]
                   else spec_clauses self entity anomalies)"
  unfolding generate_risk_reason_def Let_def reason_step1 reason_step2 reason_step3
    reason_step4 reason_step5
  by (simp add: spec_clauses_def spec_fallback_clause_def)

lemma join_nonempty: "xs \<noteq> [] \<Longrightarrow> hd xs \<noteq> [] \<Longrightarrow> join sep xs \<noteq> []"
  by (induction sep xs rule: join.induct) simp_all

lemma spec_clauses_nonempty: "c \<in> set (spec_clauses self entity anomalies) \<Longrightarrow> c \<noteq> []"
  unfolding spec_clauses_def set_append Un_iff
  by (elim disjE)
     (auto simp: spec_entity_type_clause_def
      spec_sanctions_clause_def spec_reputation_clause_def spec_anomaly_clauses_def
      spec_jurisdiction_clause_def split: option.splits EntityType.splits if_splits)

lemma generate_risk_reason_nonempty: "generate_risk_reason self entity score anomalies \<noteq> []"
proof (cases "spec_clauses self entity anomalies = []")
  case True
  then show ?thesis by (simp add: generate_risk_reason_eq_spec spec_fallback_clause_def)
next
  case False
  then have "hd (spec_clauses self entity anomalies) \<in> set (spec_clauses self entity anomalies)"
    by simp
  then have "hd (spec_clauses self entity anomalies) \<noteq> []" by (rule spec_clauses_nonempty)
  with False show ?thesis by (simp add: generate_risk_reason_eq_spec join_nonempty)
qed

text \<open>
  Claim C8. For every scorer, entity, risk score and optional anomaly list,
  \<open>generate_risk_reason\<close> returns a non-empty string (the model is a total function: the
  source has no raising path). The string consists of the clauses for entity type,
  sanctions, reputation, each anomaly in the given order, and jurisdiction, in this order,
  joined by \<open>" | "\<close>; and when no clause applies it is exactly the fallback clause.
\<close>

theorem generate_risk_reason_clauses:
  "generate_risk_reason self entity score anomalies \<noteq> [] \<and>
   generate_risk_reason self entity score anomalies =
     join '' | ''
       (if spec_clauses self entity anomalies = [] then [spec_fallback_clause]
        else spec_entity_type_clause entity @ spec_sanctions_clause entity @
             spec_reputation_clause entity @ spec_anomaly_clauses anomalies @
             spec_jurisdiction_clause self entity) \<and>
   (spec_clauses self entity anomalies = [] \<longrightarrow>
      generate_risk_reason self entity score anomalies =
        ''Risk score based on standard entity assessment'')"
proof (intro conjI impI)
  show "generate_risk_reason self entity score anomalies \<noteq> []"
    by (rule generate_risk_reason_nonempty)
  show "generate_risk_reason self entity score anomalies =
     join '' | ''
       (if spec_clauses self entity anomalies = [] then [spec_fallback_clause]
        else spec_entity_type_clause entity @ spec_sanctions_clause entity @
             spec_reputation_clause entity @ spec_anomaly_clauses anomalies @
             spec_jurisdiction_clause self entity)"
    unfolding generate_risk_reason_eq_spec by (simp add: spec_clauses_def)
next
  assume "spec_clauses self entity anomalies = []"
  then show "generate_risk_reason self entity score anomalies =
        ''Risk score based on standard entity assessment''"
    by (simp add: generate_risk_reason_eq_spec spec_fallback_clause_def)
qed

theorem generate_risk_reason_clauses_witness:
  "spec_clauses (RiskScorer_init exact) plain_entity None = [] \<and>
   generate_risk_reason (RiskScorer_init exact) plain_entity (42/100) None =
     ''Risk score based on standard entity assessment'' \<and>
   generate_risk_reason (RiskScorer_init exact) sanctioned_shell_ru (62/100) (Some [round_anomaly]) =
     ''Entity is classified as a shell company | Entity is on sanctions list | Anomaly detected: Round number transaction: 5000.0 USD | Entity is based in a high-risk jurisdiction (ru)''"
  using generate_risk_reason_clauses [of "RiskScorer_init exact" plain_entity "42/100" None]
    generate_risk_reason_clauses
      [of "RiskScorer_init exact" sanctioned_shell_ru "62/100" "Some [round_anomaly]"]
  by (simp add: spec_clauses_def spec_entity_type_clause_def spec_sanctions_clause_def
      spec_reputation_clause_def spec_anomaly_clauses_def spec_jurisdiction_clause_def
      spec_fallback_clause_def plain_entity_def sanctioned_shell_ru_def Entity_init_def
      round_anomaly_def RiskScorer_init_def lower_ru)

section \<open>The thirty-day window of the history\<close>

lemma timedelta_days_30_pos: "0 < timedelta_days 30"
  by (simp add: timedelta_days_def day_us_def)

lemma update_transaction_history_eq:
  "update_transaction_history now self n amt cur =
     Some (self\<lparr>transaction_history :=
                  (transaction_history self)(n \<mapsto> updated_history now self n amt cur)\<rparr>)"
  by (cases "transaction_history self n")
     (simp_all add: update_transaction_history_def cleanup_transaction_history_def Let_def
      prior_history_def updated_history_def timedelta_days_30_pos cong: if_cong)

lemma updated_history_within_window:
  "(\<forall>t \<in> set (transactions (updated_history now self n amt cur)). now - timedelta_days 30 < time t) \<and>
   (\<forall>d \<in> dom (daily_amounts (updated_history now self n amt cur)).
      date (now - timedelta_days 30) < d)"
  by (auto simp: updated_history_def dom_def split: if_splits)

lemma within_window_update:
  "within_window now
     (self\<lparr>transaction_history := (transaction_history self)(n \<mapsto> updated_history now self n amt cur)\<rparr>) n"
  using updated_history_within_window [of now self n amt cur]
  by (simp add: within_window_def)

lemma detect_entities_other_names:
  "detect_entities now amt cur es acc self = Some (r, self') \<Longrightarrow> n \<notin> name ` set es \<Longrightarrow>
   transaction_history self' n = transaction_history self n"
proof (induction es arbitrary: acc self)
  case Nil
  then show ?case by simp
next
  case (Cons e es)
  define self1 where "self1 = self\<lparr>transaction_history := (transaction_history self)
                        (name e \<mapsto> updated_history now self (name e) amt cur)\<rparr>"
  from Cons.prems(1) have
    "detect_entities now amt cur es (acc @ entity_checks now self1 e) self1 = Some (r, self')"
    by (simp add: update_transaction_history_eq self1_def)
  moreover have "n \<notin> name ` set es" using Cons.prems(2) by simp
  ultimately have "transaction_history self' n = transaction_history self1 n" by (rule Cons.IH)
  moreover have "n \<noteq> name e" using Cons.prems(2) by auto
  ultimately show ?case by (simp add: self1_def)
qed

lemma detect_entities_within_window:
  "detect_entities now amt cur es acc self = Some (r, self') \<Longrightarrow> n \<in> name ` set es \<Longrightarrow>
   within_window now self' n"
proof (induction es arbitrary: acc self)
  case Nil
  then show ?case by simp
next
  case (Cons e es)
  define self1 where "self1 = self\<lparr>transaction_history := (transaction_history self)
                        (name e \<mapsto> updated_history now self (name e) amt cur)\<rparr>"
  from Cons.prems(1) have d:
    "detect_entities now amt cur es (acc @ entity_checks now self1 e) self1 = Some (r, self')"
    by (simp add: update_transaction_history_eq self1_def)
  show ?case
  proof (cases "n \<in> name ` set es")
    case True
    with d show ?thesis by (rule Cons.IH)
  next
    case False
    with Cons.prems(2) have n: "n = name e" by auto
    from d False have "transaction_history self' n = transaction_history self1 n"
      by (rule detect_entities_other_names)
    moreover have "within_window now self1 n"
      unfolding n self1_def by (rule within_window_update)
    ultimately show ?thesis by (simp add: within_window_def)
  qed
qed

lemma detect_entities_total:
  "\<exists>r self'. detect_entities now amt cur es acc self = Some (r, self')"
  by (induction es arbitrary: acc self) (simp_all add: update_transaction_history_eq)

text \<open>
  Claim C9. Every update of an entity's history succeeds, and afterwards the entity's
  stored transactions are all newer than 30 days before the current time, and the days of
  its per-day amount map all lie after the date of that cutoff. Every call of
  \<open>detect_anomalies\<close> succeeds and leaves the history of each entity of the call within
  that window.
\<close>

theorem update_keeps_thirty_day_window:
  "(\<exists>self' h'. update_transaction_history now self n amt cur = Some self' \<and>
      transaction_history self' n = Some h' \<and>
      (\<forall>t \<in> set (transactions h'). now - timedelta_days 30 < time t) \<and>
      (\<forall>d \<in> dom (daily_amounts h'). date (now - timedelta_days 30) < d)) \<and>
   (\<exists>an self'. detect_anomalies sf now self amt cur es = Some (an, self') \<and>
      (\<forall>e \<in> set es. within_window now self' (name e)))"
proof (intro conjI)
  show "\<exists>self' h'. update_transaction_history now self n amt cur = Some self' \<and>
      transaction_history self' n = Some h' \<and>
      (\<forall>t \<in> set (transactions h'). now - timedelta_days 30 < time t) \<and>
      (\<forall>d \<in> dom (daily_amounts h'). date (now - timedelta_days 30) < d)"
    using updated_history_within_window [of now self n amt cur]
    by (simp add: update_transaction_history_eq)
  have "\<exists>acc. detect_anomalies sf now self amt cur es = detect_entities now amt cur es acc self"
    unfolding detect_anomalies_def Let_def by (rule exI) (rule refl)
  then obtain acc where
    d: "detect_anomalies sf now self amt cur es = detect_entities now amt cur es acc self" ..
  from detect_entities_total [of now amt cur es acc self]
  obtain r self' where r: "detect_entities now amt cur es acc self = Some (r, self')" by blast
  have "\<forall>e \<in> set es. within_window now self' (name e)"
    using detect_entities_within_window [OF r] by auto
  with d r show "\<exists>an self'. detect_anomalies sf now self amt cur es = Some (an, self') \<and>
      (\<forall>e \<in> set es. within_window now self' (name e))"
    by simp
qed

theorem update_keeps_thirty_day_window_witness:
  "(\<exists>self' h'.
      update_transaction_history (timedelta_days 31) old_detector ''Acme Widgets'' 70 ''USD''
        = Some self' \<and>
      transaction_history self' ''Acme Widgets'' = Some h' \<and>
      map time (transactions h') = [timedelta_days 31] \<and>
      daily_amounts h' 0 = None \<and> daily_amounts h' 31 = Some 70 \<and>
      (\<forall>t \<in> set (transactions h'). timedelta_days 31 - timedelta_days 30 < time t) \<and>
      (\<forall>d \<in> dom (daily_amounts h'). date (timedelta_days 31 - timedelta_days 30) < d)) \<and>
   (\<exists>an self'.
      detect_anomalies example_str_float (timedelta_days 31) old_detector 70 ''USD'' [plain_entity]
        = Some (an, self') \<and>
      within_window (timedelta_days 31) self' ''Acme Widgets'')"
proof (rule conjI)
  note t = update_keeps_thirty_day_window
    [of "timedelta_days 31" old_detector "''Acme Widgets''" 70 "''USD''" example_str_float
        "[plain_entity]"]
  from t obtain self' h' where
    u: "update_transaction_history (timedelta_days 31) old_detector ''Acme Widgets'' 70 ''USD''
          = Some self'"
    and h: "transaction_history self' ''Acme Widgets'' = Some h'"
    and w: "\<forall>t \<in> set (transactions h'). timedelta_days 31 - timedelta_days 30 < time t"
      "\<forall>d \<in> dom (daily_amounts h'). date (timedelta_days 31 - timedelta_days 30) < d"
    by blast
  from u h have e: "h' = updated_history (timedelta_days 31) old_detector ''Acme Widgets'' 70 ''USD''"
    by (simp add: update_transaction_history_eq) auto
  have "map time (transactions h') = [timedelta_days 31]"
    by (simp add: e updated_history_def prior_history_def old_detector_def timedelta_days_def
        day_us_def)
  moreover have "daily_amounts h' 0 = None \<and> daily_amounts h' 31 = Some 70"
    by (simp add: e updated_history_def prior_history_def old_detector_def timedelta_days_def
        day_us_def date_def)
  ultimately show "\<exists>self' h'.
      update_transaction_history (timedelta_days 31) old_detector ''Acme Widgets'' 70 ''USD''
        = Some self' \<and>
      transaction_history self' ''Acme Widgets'' = Some h' \<and>
      map time (transactions h') = [timedelta_days 31] \<and>
      daily_amounts h' 0 = None \<and> daily_amounts h' 31 = Some 70 \<and>
      (\<forall>t \<in> set (transactions h'). timedelta_days 31 - timedelta_days 30 < time t) \<and>
      (\<forall>d \<in> dom (daily_amounts h'). date (timedelta_days 31 - timedelta_days 30) < d)"
    using u h w by (intro exI [of _ self'] exI [of _ h']) simp
  from t show "\<exists>an self'.
      detect_anomalies example_str_float (timedelta_days 31) old_detector 70 ''USD'' [plain_entity]
        = Some (an, self') \<and>
      within_window (timedelta_days 31) self' ''Acme Widgets''"
    by (simp add: plain_entity_def Entity_init_def)
qed

section \<open>High frequency on the sixth call of a day\<close>

lemma has_type_append: "has_type ty (xs @ ys) = (has_type ty xs \<or> has_type ty ys)"
  by (simp add: has_type_def)

lemma has_type_Nil: "has_type ty [] = False"
  by (simp add: has_type_def)

lemma same_date_within_window:
  assumes "date t = date now"
  shows "now - timedelta_days 30 < t"
proof -
  have "day_us * (t div day_us) \<le> t" by (simp add: day_us_def)
  moreover have "now < day_us * (now div day_us) + day_us" 
    using pos_mod_bound [of day_us now] by (simp add: day_us_def mult_div_mod_eq [symmetric] del: mult_div_mod_eq)
  moreover have "t div day_us = now div day_us" using assms by (simp add: date_def)
  ultimately show ?thesis by (simp add: timedelta_days_def day_us_def)
qed

lemma prior_history_day:
  assumes "day_history d m self n"
  shows "length (transactions (prior_history now self n)) = m"
    and "list_all (\<lambda>t. date (time t) = d) (transactions (prior_history now self n))"
  using assms by (auto simp: day_history_def prior_history_def split: option.splits)

lemma updated_history_transactions:
  assumes "day_history d m self n" and "date now = d"
  shows "transactions (updated_history now self n amt cur) =
           transactions (prior_history now self n) @ [\<lparr>time = now, amount = amt, currency = cur\<rparr>]"
proof -
  have "\<forall>t \<in> set (transactions (prior_history now self n)). now - timedelta_days 30 < time t"
    using prior_history_day(2) [OF assms(1), of now] assms(2)
    by (auto simp: list_all_iff intro: same_date_within_window)
  then show ?thesis
    by (simp add: updated_history_def timedelta_days_30_pos)
qed

lemma day_history_update:
  assumes "day_history d m self n" and "date now = d"
  shows "day_history d (Suc m)
           (self\<lparr>transaction_history := (transaction_history self)(n \<mapsto> updated_history now self n amt cur)\<rparr>) n"
  using prior_history_day [OF assms(1), of now] assms(2)
  by (simp add: day_history_def updated_history_transactions [OF assms])

lemma check_frequency_after_update:
  assumes "day_history d m self n" and "date now = d"
  shows "check_transaction_frequency now
           (self\<lparr>transaction_history := (transaction_history self)(n \<mapsto> updated_history now self n amt cur)\<rparr>) n
         = (th_frequency (thresholds self) < Suc m)"
proof -
  have "filter (\<lambda>t. date (time t) = date now) (transactions (prior_history now self n))
          = transactions (prior_history now self n)"
    using prior_history_day(2) [OF assms(1), of now] assms(2)
    by (auto simp: list_all_iff intro: filter_True)
  then show ?thesis
    using prior_history_day(1) [OF assms(1), of now]
    by (simp add: check_transaction_frequency_def updated_history_transactions [OF assms])
qed

lemma has_type_entity_checks:
  "has_type ''high_frequency'' (entity_checks now self e) = check_transaction_frequency now self (name e)"
  by (simp add: has_type_def entity_checks_def)

lemma detect_anomalies_single:
  "\<exists>pre. detect_anomalies sf now self amt cur [e] =
      Some (pre @ entity_checks now
               (self\<lparr>transaction_history := (transaction_history self)
                        (name e \<mapsto> updated_history now self (name e) amt cur)\<rparr>) e,
            self\<lparr>transaction_history := (transaction_history self)
                        (name e \<mapsto> updated_history now self (name e) amt cur)\<rparr>) \<and>
      \<not> has_type ''high_frequency'' pre"
  by (simp add: detect_anomalies_def update_transaction_history_eq has_type_def)

lemma member_entity_checks:
  "check_transaction_frequency now self (name e) \<Longrightarrow>
   high_frequency_anomaly (name e) \<in> set (entity_checks now self e)"
  by (simp add: entity_checks_def high_frequency_anomaly_def)

lemma detect_anomalies_same_day:
  assumes "day_history d m self n" and "date now = d" and "name e = n"
  shows "\<exists>an self'. detect_anomalies sf now self amt cur [e] = Some (an, self') \<and>
           day_history d (Suc m) self' n \<and> thresholds self' = thresholds self \<and>
           has_type ''high_frequency'' an = (th_frequency (thresholds self) < Suc m) \<and>
           (th_frequency (thresholds self) < Suc m \<longrightarrow> high_frequency_anomaly n \<in> set an)"
proof -
  define self' where "self' = self\<lparr>transaction_history := (transaction_history self)
                        (name e \<mapsto> updated_history now self (name e) amt cur)\<rparr>"
  from detect_anomalies_single [of sf now self amt cur e]
  obtain pre where d: "detect_anomalies sf now self amt cur [e] =
      Some (pre @ entity_checks now self' e, self')" and pre: "\<not> has_type ''high_frequency'' pre"
    unfolding self'_def by blast
  have a: "day_history d m self (name e)" using assms by simp
  have f: "check_transaction_frequency now self' (name e) = (th_frequency (thresholds self) < Suc m)"
    unfolding self'_def by (rule check_frequency_after_update [OF a assms(2)])
  have h: "has_type ''high_frequency'' (pre @ entity_checks now self' e)
             = (th_frequency (thresholds self) < Suc m)"
    using pre has_type_entity_checks [of now self' e] f by (simp add: has_type_def)
  have m: "th_frequency (thresholds self) < Suc m \<longrightarrow>
             high_frequency_anomaly n \<in> set (pre @ entity_checks now self' e)"
    using member_entity_checks [of now self' e] f assms(3) by auto
  have i: "day_history d (Suc m) self' n"
    using day_history_update [OF a assms(2), of amt cur] assms(3) by (simp add: self'_def)
  have t: "thresholds self' = thresholds self" by (simp add: self'_def)
  show ?thesis using d h m i t by simp
qed

lemma detect_sequence_same_day:
  assumes "day_history d m self n"
    and "list_all (\<lambda>c. date (fst c) = d \<and> map name (snd (snd (snd c))) = [n]) calls"
  shows "\<exists>outs self'. detect_sequence sf self calls = Some (outs, self') \<and>
           length outs = length calls \<and>
           (\<forall>i < length calls.
              has_type ''high_frequency'' (outs ! i) = (th_frequency (thresholds self) < m + i + 1) \<and>
              (th_frequency (thresholds self) < m + i + 1 \<longrightarrow>
                 high_frequency_anomaly n \<in> set (outs ! i)))"
  using assms
proof (induction calls arbitrary: m self)
  case Nil
  then show ?case by simp
next
  case (Cons c calls)
  obtain now amt cur entities where c: "c = (now, amt, cur, entities)" by (cases c) auto
  from Cons.prems(2) c have now: "date now = d" and "map name entities = [n]" by simp_all
  then obtain e where e: "entities = [e]" "name e = n" by (cases entities) auto
  from detect_anomalies_same_day [OF Cons.prems(1) now e(2), of sf amt cur]
  obtain an self1 where
    d1: "detect_anomalies sf now self amt cur [e] = Some (an, self1)"
    and i1: "day_history d (Suc m) self1 n"
    and t1: "thresholds self1 = thresholds self"
    and h1: "has_type ''high_frequency'' an = (th_frequency (thresholds self) < Suc m)"
    and m1: "th_frequency (thresholds self) < Suc m \<longrightarrow> high_frequency_anomaly n \<in> set an"
    by blast
  from Cons.prems(2) have rest: "list_all (\<lambda>c. date (fst c) = d \<and> map name (snd (snd (snd c))) = [n]) calls"
    by simp
  from Cons.IH [OF i1 rest]
  obtain outs self2 where
    d2: "detect_sequence sf self1 calls = Some (outs, self2)"
    and l2: "length outs = length calls"
    and h2: "\<forall>i < length calls.
              has_type ''high_frequency'' (outs ! i) = (th_frequency (thresholds self1) < Suc m + i + 1) \<and>
              (th_frequency (thresholds self1) < Suc m + i + 1 \<longrightarrow>
                 high_frequency_anomaly n \<in> set (outs ! i))"
    by blast
  have seq: "detect_sequence sf self (c # calls) = Some (an # outs, self2)"
    by (simp add: c e(1) d1 d2)
  have "\<forall>i < length (c # calls).
          has_type ''high_frequency'' ((an # outs) ! i) = (th_frequency (thresholds self) < m + i + 1) \<and>
          (th_frequency (thresholds self) < m + i + 1 \<longrightarrow>
             high_frequency_anomaly n \<in> set ((an # outs) ! i))"
  proof (intro allI impI)
    fix i assume "i < length (c # calls)"
    show "has_type ''high_frequency'' ((an # outs) ! i) = (th_frequency (thresholds self) < m + i + 1) \<and>
          (th_frequency (thresholds self) < m + i + 1 \<longrightarrow>
             high_frequency_anomaly n \<in> set ((an # outs) ! i))"
    proof (cases i)
      case 0
      then show ?thesis using h1 m1 by simp
    next
      case (Suc j)
      with \<open>i < length (c # calls)\<close> have "j < length calls" by simp
      with h2 t1 Suc show ?thesis by simp
    qed
  qed
  with seq l2 show ?case by simp
qed

lemma day_history_init: "day_history d 0 AnomalyDetector_init n"
  by (simp add: day_history_def AnomalyDetector_init_def)

lemma six_calls_same_day:
  "list_all (\<lambda>c. date (fst c) = 0 \<and> map name (snd (snd (snd c))) = [''Acme Widgets'']) six_calls"
  by (simp add: six_calls_def date_def day_us_def plain_entity_def Entity_init_def)

lemma high_frequency_iff_count:
  "\<exists>an self' h'.
      detect_anomalies sf now (AnomalyDetector_init\<lparr>transaction_history := hist\<rparr>) amt cur [e]
        = Some (an, self') \<and>
      transaction_history self' (name e) = Some h' \<and>
      has_type ''high_frequency'' an =
        (5 < length (filter (\<lambda>t. date (time t) = date now) (transactions h')))"
proof -
  define self0 where "self0 = AnomalyDetector_init\<lparr>transaction_history := hist\<rparr>"
  define self' where "self' = self0\<lparr>transaction_history := (transaction_history self0)
                        (name e \<mapsto> updated_history now self0 (name e) amt cur)\<rparr>"
  from detect_anomalies_single [of sf now self0 amt cur e]
  obtain pre where d: "detect_anomalies sf now self0 amt cur [e] =
      Some (pre @ entity_checks now self' e, self')" and pre: "\<not> has_type ''high_frequency'' pre"
    unfolding self'_def by blast
  have h: "transaction_history self' (name e) = Some (updated_history now self0 (name e) amt cur)"
    by (simp add: self'_def)
  have th: "th_frequency (thresholds self') = 5"
    by (simp add: self'_def self0_def AnomalyDetector_init_def)
  have "has_type ''high_frequency'' (pre @ entity_checks now self' e)
          = check_transaction_frequency now self' (name e)"
    using pre has_type_entity_checks [of now self' e] by (simp add: has_type_append)
  also have "\<dots> = (5 < length (filter (\<lambda>t. date (time t) = date now)
                       (transactions (updated_history now self0 (name e) amt cur))))"
    by (simp add: check_transaction_frequency_def h th)
  finally show ?thesis using d h unfolding self0_def by simp
qed

text \<open>
  Claim C5. With the current time given to each call, a call of \<open>detect_anomalies\<close> for
  one entity succeeds and yields a high-frequency anomaly exactly when the entity's stored
  transactions of the current day, the new one included, number more than 5. Starting from
  the empty history, six such calls whose times lie on one calendar day, each for one entity
  of the same name, all succeed; none of the first five yields a high-frequency anomaly, and
  the sixth yields the high-frequency anomaly of that name, of severity 0.8.
\<close>

theorem high_frequency_on_sixth_call:
  "(\<exists>an self' h'.
      detect_anomalies sf now (AnomalyDetector_init\<lparr>transaction_history := hist\<rparr>) amt cur [e]
        = Some (an, self') \<and>
      transaction_history self' (name e) = Some h' \<and>
      has_type ''high_frequency'' an =
        (5 < length (filter (\<lambda>t. date (time t) = date now) (transactions h')))) \<and>
   (list_all (\<lambda>c. date (fst c) = d \<and> map name (snd (snd (snd c))) = [n]) calls \<and>
    length calls = 6 \<longrightarrow>
    (\<exists>outs self'. detect_sequence sf AnomalyDetector_init calls = Some (outs, self') \<and>
           length outs = 6 \<and>
           (\<forall>i < 5. \<not> has_type ''high_frequency'' (outs ! i)) \<and>
           has_type ''high_frequency'' (outs ! 5) \<and>
           high_frequency_anomaly n \<in> set (outs ! 5) \<and>
           severity (high_frequency_anomaly n) = 8/10))"
proof (intro conjI impI)
  show "\<exists>an self' h'.
      detect_anomalies sf now (AnomalyDetector_init\<lparr>transaction_history := hist\<rparr>) amt cur [e]
        = Some (an, self') \<and>
      transaction_history self' (name e) = Some h' \<and>
      has_type ''high_frequency'' an =
        (5 < length (filter (\<lambda>t. date (time t) = date now) (transactions h')))"
    by (rule high_frequency_iff_count)
next
  assume a: "list_all (\<lambda>c. date (fst c) = d \<and> map name (snd (snd (snd c))) = [n]) calls \<and>
    length calls = 6"
  then have a1: "list_all (\<lambda>c. date (fst c) = d \<and> map name (snd (snd (snd c))) = [n]) calls"
    and a2: "length calls = 6" by simp_all
  from detect_sequence_same_day [OF day_history_init a1, of sf]
  obtain outs self' where
    s: "detect_sequence sf AnomalyDetector_init calls = Some (outs, self')"
    and l: "length outs = length calls"
    and h: "\<forall>i < length calls.
              has_type ''high_frequency'' (outs ! i) = (th_frequency (thresholds AnomalyDetector_init) < 0 + i + 1) \<and>
              (th_frequency (thresholds AnomalyDetector_init) < 0 + i + 1 \<longrightarrow>
                 high_frequency_anomaly n \<in> set (outs ! i))"
    by blast
  have th: "th_frequency (thresholds AnomalyDetector_init) = 5"
    by (simp add: AnomalyDetector_init_def)
  have "\<forall>i < 5. \<not> has_type ''high_frequency'' (outs ! i)"
    using h a2 by (simp add: th)
  moreover have "has_type ''high_frequency'' (outs ! 5) \<and> high_frequency_anomaly n \<in> set (outs ! 5)"
    using h a2 by (simp add: th)
  ultimately show "\<exists>outs self'. detect_sequence sf AnomalyDetector_init calls = Some (outs, self') \<and>
           length outs = 6 \<and>
           (\<forall>i < 5. \<not> has_type ''high_frequency'' (outs ! i)) \<and>
           has_type ''high_frequency'' (outs ! 5) \<and>
           high_frequency_anomaly n \<in> set (outs ! 5) \<and>
           severity (high_frequency_anomaly n) = 8/10"
    using s l a2 by (simp add: high_frequency_anomaly_def)
qed

theorem high_frequency_on_sixth_call_witness:
  "list_all (\<lambda>c. date (fst c) = 0 \<and> map name (snd (snd (snd c))) = [''Acme Widgets'']) six_calls \<and>
   length six_calls = 6 \<and>
   (\<exists>outs self'. detect_sequence example_str_float AnomalyDetector_init six_calls = Some (outs, self') \<and>
           length outs = 6 \<and>
           (\<forall>i < 5. \<not> has_type ''high_frequency'' (outs ! i)) \<and>
           has_type ''high_frequency'' (outs ! 5) \<and>
           high_frequency_anomaly ''Acme Widgets'' \<in> set (outs ! 5) \<and>
           severity (high_frequency_anomaly ''Acme Widgets'') = 8/10)"
proof -
  have l: "length six_calls = 6" by (simp add: six_calls_def)
  show ?thesis
    using high_frequency_on_sixth_call [of example_str_float 0 Map.empty 0 "''USD''" plain_entity 0 "''Acme Widgets''" six_calls]
      six_calls_same_day l by blast
qed

section \<open>The round-amount rule\<close>

lemma entity_checks_types:
  "\<not> has_type ''round_amount'' (entity_checks now self e)"
  by (simp add: has_type_def entity_checks_def)

lemma detect_entities_result:
  "\<exists>more self'. detect_entities now amt cur es acc self = Some (acc @ more, self') \<and>
      thresholds self' = thresholds self \<and> \<not> has_type ''round_amount'' more"
proof (induction es arbitrary: acc self)
  case Nil
  show ?case by (simp add: has_type_Nil)
next
  case (Cons e es)
  define self1 where "self1 = self\<lparr>transaction_history := (transaction_history self)
                        (name e \<mapsto> updated_history now self (name e) amt cur)\<rparr>"
  from Cons.IH [of "acc @ entity_checks now self1 e" self1]
  obtain more self' where
    r: "detect_entities now amt cur es (acc @ entity_checks now self1 e) self1
          = Some ((acc @ entity_checks now self1 e) @ more, self')"
    and t: "thresholds self' = thresholds self1"
    and m: "\<not> has_type ''round_amount'' more"
    by blast
  have "detect_entities now amt cur (e # es) acc self
          = Some (acc @ (entity_checks now self1 e @ more), self')"
    using r by (simp add: update_transaction_history_eq self1_def)
  moreover have "\<not> has_type ''round_amount'' (entity_checks now self1 e @ more)"
    using m entity_checks_types by (simp add: has_type_append)
  moreover have "thresholds self' = thresholds self" using t by (simp add: self1_def)
  ultimately show ?case by blast
qed

lemma py_mod_zero_iff: "(py_mod x 1000 = 0) = (\<exists>k::int. x = 1000 * of_int k)"
proof
  assume "py_mod x 1000 = 0"
  then have "x = 1000 * of_int \<lfloor>x / 1000\<rfloor>" by (simp add: py_mod_def)
  then show "\<exists>k::int. x = 1000 * of_int k" ..
next
  assume "\<exists>k::int. x = 1000 * of_int k"
  then obtain k :: int where "x = 1000 * of_int k" ..
  then show "py_mod x 1000 = 0" by (simp add: py_mod_def)
qed

lemma detect_anomalies_round:
  assumes "th_round_amount (thresholds self) = 1000"
  shows "\<exists>an self'. detect_anomalies sf now self amt cur es = Some (an, self') \<and>
           has_type ''round_amount'' an = (py_mod amt 1000 = 0) \<and>
           (py_mod amt 1000 = 0 \<longrightarrow> round_amount_anomaly (sf amt @ '' '' @ cur) \<in> set an) \<and>
           (\<forall>a \<in> set an. atype a = ''round_amount'' \<longrightarrow> severity a = 7/10)"
proof -
  define pre where "pre =
     (if th_amount (thresholds self) < amt
      then [] @ [\<lparr>atype = ''large_transaction'',
                  severity = min (amt / th_amount (thresholds self)) 1,
                  description = ''Large transaction amount: '' @ sf amt @ '' '' @ cur,
                  evidence = [''Transaction amount exceeds threshold'']\<rparr>]
      else [])"
  define pre2 where "pre2 =
     (if is_round_number self amt
      then pre @ [\<lparr>atype = ''round_amount'', severity = 7/10,
                   description = ''Round number transaction: '' @ sf amt @ '' '' @ cur,
                   evidence = [''Transaction amount is a round number'']\<rparr>]
      else pre)"
  have d: "detect_anomalies sf now self amt cur es = detect_entities now amt cur es pre2 self"
    by (simp add: detect_anomalies_def pre_def pre2_def)
  from detect_entities_result [of now amt cur es pre2 self]
  obtain more self' where
    r: "detect_entities now amt cur es pre2 self = Some (pre2 @ more, self')"
    and m: "\<not> has_type ''round_amount'' more"
    by blast
  have rn: "is_round_number self amt = (py_mod amt 1000 = 0)"
    using assms by (simp add: is_round_number_def)
  have p: "\<not> has_type ''round_amount'' pre" by (simp add: pre_def has_type_def)
  have h: "has_type ''round_amount'' (pre2 @ more) = (py_mod amt 1000 = 0)"
    using m p rn by (simp add: has_type_append pre2_def) (simp add: has_type_def)
  have mem: "py_mod amt 1000 = 0 \<longrightarrow> round_amount_anomaly (sf amt @ '' '' @ cur) \<in> set (pre2 @ more)"
    using rn by (simp add: pre2_def round_amount_anomaly_def)
  have sev: "\<forall>a \<in> set (pre2 @ more). atype a = ''round_amount'' \<longrightarrow> severity a = 7/10"
    using m p by (auto simp: pre2_def has_type_def list_ex_iff split: if_splits)
  show ?thesis using d r h mem sev by simp
qed

lemma fake_entity_anomalies_not_round:
  "\<not> has_type ''round_amount'' (fake_entity_anomalies sp now self e)"
  by (simp add: fake_entity_anomalies_def has_type_def split: option.splits)

lemma fake_entities_not_round:
  "\<not> has_type ''round_amount'' (concat (map (fake_entity_anomalies sp now self) es))"
  by (induction es) (simp_all add: has_type_Nil has_type_append fake_entity_anomalies_not_round)

lemma fake_anomalies_list_round:
  "has_type ''round_amount'' (fake_anomalies_list sf sp now self amt es)
     = (py_mod amt 1000 = 0 \<and> 10000 < amt)"
  using fake_entities_not_round [of sp now self es]
  by (simp add: fake_anomalies_list_def has_type_append) (simp add: has_type_def)

lemma init_round_threshold:
  "th_round_amount (thresholds (AnomalyDetector_init\<lparr>transaction_history := hist\<rparr>)) = 1000"
  by (simp add: AnomalyDetector_init_def)

text \<open>
  Claim C4. The stateful detector, with the thresholds of its constructor and any history,
  returns a round-amount anomaly exactly when the amount is an integer multiple of 1000,
  and every such anomaly has severity 0.7: for the amount 5000 the round-amount anomaly is
  returned, for 5001 none is. The rule of the transaction-level variant
  (\<open>generate_fake_anomalies\<close>) adds a round-amount anomaly to its list exactly when the
  amount is a multiple of 1000 and greater than 10000, and none for 5001.
\<close>

theorem round_amount_rule:
  "(\<exists>an self'.
      detect_anomalies sf now (AnomalyDetector_init\<lparr>transaction_history := hist\<rparr>) amt cur es
        = Some (an, self') \<and>
      has_type ''round_amount'' an = (\<exists>k::int. amt = 1000 * of_int k) \<and>
      (\<forall>a \<in> set an. atype a = ''round_amount'' \<longrightarrow> severity a = 7/10)) \<and>
   (\<exists>an self'.
      detect_anomalies sf now (AnomalyDetector_init\<lparr>transaction_history := hist\<rparr>) 5000 cur es
        = Some (an, self') \<and>
      round_amount_anomaly (sf 5000 @ '' '' @ cur) \<in> set an \<and>
      severity (round_amount_anomaly (sf 5000 @ '' '' @ cur)) = 7/10) \<and>
   (\<exists>an self'.
      detect_anomalies sf now (AnomalyDetector_init\<lparr>transaction_history := hist\<rparr>) 5001 cur es
        = Some (an, self') \<and>
      \<not> has_type ''round_amount'' an) \<and>
   has_type ''round_amount'' (fake_anomalies_list sf sp now gen amt es)
     = ((\<exists>k::int. amt = 1000 * of_int k) \<and> 10000 < amt) \<and>
   \<not> has_type ''round_amount'' (fake_anomalies_list sf sp now gen 5001 es)"
proof (intro conjI)
  show "\<exists>an self'.
      detect_anomalies sf now (AnomalyDetector_init\<lparr>transaction_history := hist\<rparr>) amt cur es
        = Some (an, self') \<and>
      has_type ''round_amount'' an = (\<exists>k::int. amt = 1000 * of_int k) \<and>
      (\<forall>a \<in> set an. atype a = ''round_amount'' \<longrightarrow> severity a = 7/10)"
    using detect_anomalies_round [OF init_round_threshold, of sf now hist amt cur es]
    unfolding py_mod_zero_iff by blast
  have m5000: "py_mod 5000 1000 = 0" by (simp add: py_mod_def)
  show "\<exists>an self'.
      detect_anomalies sf now (AnomalyDetector_init\<lparr>transaction_history := hist\<rparr>) 5000 cur es
        = Some (an, self') \<and>
      round_amount_anomaly (sf 5000 @ '' '' @ cur) \<in> set an \<and>
      severity (round_amount_anomaly (sf 5000 @ '' '' @ cur)) = 7/10"
    using detect_anomalies_round [OF init_round_threshold, of sf now hist 5000 cur es] m5000
    by (auto simp: round_amount_anomaly_def)
  have m5001: "py_mod 5001 1000 \<noteq> 0" by (simp add: py_mod_def)
  show "\<exists>an self'.
      detect_anomalies sf now (AnomalyDetector_init\<lparr>transaction_history := hist\<rparr>) 5001 cur es
        = Some (an, self') \<and>
      \<not> has_type ''round_amount'' an"
    using detect_anomalies_round [OF init_round_threshold, of sf now hist 5001 cur es] m5001
    by auto
  show "has_type ''round_amount'' (fake_anomalies_list sf sp now gen amt es)
     = ((\<exists>k::int. amt = 1000 * of_int k) \<and> 10000 < amt)"
    by (simp add: fake_anomalies_list_round py_mod_zero_iff)
  show "\<not> has_type ''round_amount'' (fake_anomalies_list sf sp now gen 5001 es)"
    using m5001 by (simp add: fake_anomalies_list_round)
qed

theorem round_amount_rule_witness:
  "(\<exists>an self'.
      detect_anomalies example_str_float example_now AnomalyDetector_init 5000 ''USD'' [plain_entity]
        = Some (an, self') \<and>
      round_amount_anomaly ''5000.0 USD'' \<in> set an \<and>
      (\<forall>a \<in> set an. atype a = ''round_amount'' \<longrightarrow> severity a = 7/10)) \<and>
   has_type ''round_amount''
     (fake_anomalies_list example_str_float example_strptime example_now FakeDataGenerator_init
        20000 [plain_entity]) \<and>
   \<not> has_type ''round_amount''
     (fake_anomalies_list example_str_float example_strptime example_now FakeDataGenerator_init
        5000 [plain_entity])"
proof -
  have i: "AnomalyDetector_init\<lparr>transaction_history := Map.empty\<rparr> = AnomalyDetector_init"
    by (simp add: AnomalyDetector_init_def)
  have k: "(\<exists>k::int. (5000::real) = 1000 * of_int k)"
    by (rule exI [of _ 5]) simp
  have k2: "(\<exists>k::int. (20000::real) = 1000 * of_int k)"
    by (rule exI [of _ 20]) simp
  from round_amount_rule
    [of example_str_float example_now Map.empty 5000 "''USD''" "[plain_entity]"
        example_strptime FakeDataGenerator_init]
  have a: "\<exists>an self'.
      detect_anomalies example_str_float example_now AnomalyDetector_init 5000 ''USD'' [plain_entity]
        = Some (an, self') \<and>
      has_type ''round_amount'' an = (\<exists>k::int. (5000::real) = 1000 * of_int k) \<and>
      (\<forall>a \<in> set an. atype a = ''round_amount'' \<longrightarrow> severity a = 7/10)"
    and b: "\<exists>an self'.
      detect_anomalies example_str_float example_now AnomalyDetector_init 5000 ''USD'' [plain_entity]
        = Some (an, self') \<and>
      round_amount_anomaly (example_str_float 5000 @ '' '' @ ''USD'') \<in> set an \<and>
      severity (round_amount_anomaly (example_str_float 5000 @ '' '' @ ''USD'')) = 7/10"
    and c: "has_type ''round_amount''
       (fake_anomalies_list example_str_float example_strptime example_now FakeDataGenerator_init
          5000 [plain_entity]) = ((\<exists>k::int. (5000::real) = 1000 * of_int k) \<and> (10000::real) < 5000)"
    unfolding i by blast+
  from round_amount_rule
    [of example_str_float example_now Map.empty 20000 "''USD''" "[plain_entity]"
        example_strptime FakeDataGenerator_init]
  have d: "has_type ''round_amount''
       (fake_anomalies_list example_str_float example_strptime example_now FakeDataGenerator_init
          20000 [plain_entity]) = ((\<exists>k::int. (20000::real) = 1000 * of_int k) \<and> (10000::real) < 20000)"
    by blast
  have s: "example_str_float 5000 @ '' '' @ ''USD'' = ''5000.0 USD''"
    by (simp add: example_str_float_def)
  from a b obtain an self' where
    "detect_anomalies example_str_float example_now AnomalyDetector_init 5000 ''USD'' [plain_entity]
        = Some (an, self')"
    "round_amount_anomaly ''5000.0 USD'' \<in> set an"
    "\<forall>a \<in> set an. atype a = ''round_amount'' \<longrightarrow> severity a = 7/10"
    unfolding s by force
  then have "\<exists>an self'.
      detect_anomalies example_str_float example_now AnomalyDetector_init 5000 ''USD'' [plain_entity]
        = Some (an, self') \<and>
      round_amount_anomaly ''5000.0 USD'' \<in> set an \<and>
      (\<forall>a \<in> set an. atype a = ''round_amount'' \<longrightarrow> severity a = 7/10)"
    by blast
  moreover have "has_type ''round_amount''
     (fake_anomalies_list example_str_float example_strptime example_now FakeDataGenerator_init
        20000 [plain_entity])"
    using d k2 by simp
  moreover have "\<not> has_type ''round_amount''
     (fake_anomalies_list example_str_float example_strptime example_now FakeDataGenerator_init
        5000 [plain_entity])"
    using c by simp
  ultimately show ?thesis by blast
qed

section \<open>The high-risk-jurisdiction rule of the generator\<close>

lemma member_concat_map: "e \<in> set es \<Longrightarrow> x \<in> set (f e) \<Longrightarrow> x \<in> set (concat (map f es))"
  by auto

lemma fake_entity_high_risk:
  "has_type ''high_risk_jurisdiction'' (fake_entity_anomalies sp now self e)
     = (case jurisdiction e of
          None \<Rightarrow> False
        | Some j \<Rightarrow> (case map_of (country_risk self) j of None \<Rightarrow> False | Some w \<Rightarrow> 6/10 < w))"
  by (simp add: fake_entity_anomalies_def has_type_def split: option.splits)

lemma lower_RU: "lower ''RU'' = ''ru''"
  by (simp add: lower_def lower_char_def ascii_upper_def ascii_lower_def)

text \<open>
  Claim C6, as stated, fails on the code: the jurisdiction \<open>ru\<close> matches the table entry
  \<open>RU\<close> (weight 0.8) when case is ignored, yet the rule adds no high-risk-jurisdiction
  anomaly for it, since the table is looked up with the jurisdiction as it is written.
\<close>

theorem high_risk_jurisdiction_lower_case_not_flagged:
  "jurisdiction sanctioned_shell_ru = Some ''ru'' \<and> lower ''ru'' = lower ''RU'' \<and>
   map_of (country_risk FakeDataGenerator_init) ''RU'' = Some (8/10) \<and>
   \<not> has_type ''high_risk_jurisdiction''
       (fake_anomalies_list example_str_float example_strptime example_now FakeDataGenerator_init
          500 [sanctioned_shell_ru])"
  by (simp add: lower_RU lower_ru sanctioned_shell_ru_def Entity_init_def FakeDataGenerator_init_def
      fake_anomalies_list_def fake_entity_anomalies_def has_type_def py_mod_def)

text \<open>
  Claim C6, amended. For every entity of the call whose jurisdiction, as it is written, is a
  key of the generator's \<open>country_risk\<close> table with a weight above 0.6, the rule adds to the
  anomaly list a high-risk-jurisdiction anomaly whose severity is that table weight.
\<close>

theorem high_risk_jurisdiction_rule:
  assumes "e \<in> set es" and "jurisdiction e = Some j"
    and "map_of (country_risk self) j = Some w" and "6/10 < w"
  shows "high_risk_jurisdiction_anomaly j w \<in> set (fake_anomalies_list sf sp now self amt es) \<and>
         severity (high_risk_jurisdiction_anomaly j w) = w"
proof -
  have "high_risk_jurisdiction_anomaly j w \<in> set (fake_entity_anomalies sp now self e)"
    using assms(2-4) by (simp add: fake_entity_anomalies_def high_risk_jurisdiction_anomaly_def)
  with assms(1) have "high_risk_jurisdiction_anomaly j w
      \<in> set (concat (map (fake_entity_anomalies sp now self) es))"
    by (rule member_concat_map)
  then show ?thesis by (simp add: fake_anomalies_list_def high_risk_jurisdiction_anomaly_def)
qed

theorem high_risk_jurisdiction_rule_witness:
  "shell_RU \<in> set [shell_RU] \<and> jurisdiction shell_RU = Some ''RU'' \<and>
   map_of (country_risk FakeDataGenerator_init) ''RU'' = Some (8/10) \<and> (6/10 :: real) < 8/10 \<and>
   high_risk_jurisdiction_anomaly ''RU'' (8/10)
     \<in> set (fake_anomalies_list example_str_float example_strptime example_now
              FakeDataGenerator_init 500 [shell_RU])"
proof -
  have a: "shell_RU \<in> set [shell_RU]" by simp
  have b: "jurisdiction shell_RU = Some ''RU''" by (simp add: shell_RU_def)
  have c: "map_of (country_risk FakeDataGenerator_init) ''RU'' = Some (8/10)"
    by (simp add: FakeDataGenerator_init_def)
  have d: "(6/10 :: real) < 8/10" by simp
  show ?thesis
    using high_risk_jurisdiction_rule [OF a b c d, of example_str_float example_strptime example_now 500] a b c d
    by simp
qed

section \<open>The new-entity rule of the generator\<close>

lemma fake_entity_new_entity:
  "has_type ''new_entity'' (fake_entity_anomalies sp now self e)
     = (case incorporation_date e of
          None \<Rightarrow> False
        | Some s \<Rightarrow> s \<noteq> [] \<and>
            (case sp s of None \<Rightarrow> False | Some t \<Rightarrow> days_between now t < 180))"
  by (simp add: fake_entity_anomalies_def has_type_def split: option.splits)

text \<open>
  Claim C7 at a failing input. The entity \<open>recent_entity\<close> was incorporated on 2024-06-01,
  which parses and lies 10 days before the evaluation time; the rule fires and the list
  built by \<open>generate_fake_anomalies\<close> holds the new-entity anomaly, but the function ends
  without returning the list, so the caller receives \<open>None\<close> and no anomaly.
\<close>

theorem generate_fake_anomalies_loses_new_entity:
  "incorporation_date recent_entity = Some ''2024-06-01'' \<and>
   example_strptime ''2024-06-01'' = Some (timedelta_days 152) \<and>
   days_between example_now (timedelta_days 152) = 10 \<and>
   map atype
     (fake_anomalies_list example_str_float example_strptime example_now FakeDataGenerator_init
        500 [recent_entity]) = [''new_entity''] \<and>
   generate_fake_anomalies example_str_float example_strptime example_now FakeDataGenerator_init
     500 [recent_entity] = None"
  by (simp add: recent_entity_def Entity_init_def example_strptime_def example_now_def
      timedelta_days_def day_us_def days_between_def fake_anomalies_list_def
      fake_entity_anomalies_def generate_fake_anomalies_def py_mod_def FakeDataGenerator_init_def)

end
